theory Spec2Isabelle
  imports Complex_Main "HOL-Library.Signed_Division"
begin

section \<open>JavaScript numbers\<close>

text \<open>
  The dashboard computes with JavaScript numbers. A number is modelled as a finite
  value, the negative zero, or one of the three special values of IEEE 754 that
  division by zero and its consequences produce. \<open>Num 0\<close> is \<open>+0\<close> and \<open>NegZero\<close> is
  \<open>-0\<close>: the two compare equal and differ as divisors. Finite arithmetic is exact
  (a real number): the rounding of doubles is not modelled.
\<close>

datatype jsnum = Num real | NegZero | PInf | NInf | NaN

fun isFinite :: "jsnum \<Rightarrow> bool" where
  "isFinite (Num _) = True"
| "isFinite NegZero = True"
| "isFinite _ = False"

text \<open>Either zero.\<close>

fun isZero :: "jsnum \<Rightarrow> bool" where
  "isZero (Num a) = (a = 0)"
| "isZero NegZero = True"
| "isZero _ = False"

text \<open>The zero and the infinity of a given sign.\<close>

definition signedZero :: "bool \<Rightarrow> jsnum" where
  "signedZero negative = (if negative then NegZero else Num 0)"

definition signedInf :: "bool \<Rightarrow> jsnum" where
  "signedInf positive = (if positive then PInf else NInf)"

text \<open>
  A finite result: the exact value, and when that is zero, the zero of the sign
  that the operation gives it.
\<close>

definition finiteOf :: "real \<Rightarrow> bool \<Rightarrow> jsnum" where
  "finiteOf r negative = (if r = 0 then signedZero negative else Num r)"

text \<open>Unary minus.\<close>

fun jneg :: "jsnum \<Rightarrow> jsnum" where
  "jneg (Num a) = finiteOf (- a) True"
| "jneg NegZero = Num 0"
| "jneg PInf = NInf"
| "jneg NInf = PInf"
| "jneg NaN = NaN"

text \<open>\<open>x + y\<close>: a zero sum is \<open>+0\<close> unless both terms are \<open>-0\<close>.\<close>

fun jadd :: "jsnum \<Rightarrow> jsnum \<Rightarrow> jsnum" where
  "jadd (Num a) (Num b) = Num (a + b)"
| "jadd (Num a) NegZero = Num a"
| "jadd NegZero (Num b) = Num b"
| "jadd NegZero NegZero = NegZero"
| "jadd NaN _ = NaN"
| "jadd _ NaN = NaN"
| "jadd PInf NInf = NaN"
| "jadd NInf PInf = NaN"
| "jadd PInf _ = PInf"
| "jadd _ PInf = PInf"
| "jadd NInf _ = NInf"
| "jadd _ NInf = NInf"

text \<open>\<open>x - y\<close>\<close>

definition jsub :: "jsnum \<Rightarrow> jsnum \<Rightarrow> jsnum" where
  "jsub x y = jadd x (jneg y)"

text \<open>
  \<open>x * y\<close>: a zero times an infinity is \<open>NaN\<close>; the sign of a zero product is the
  product of the signs.
\<close>

fun jmul :: "jsnum \<Rightarrow> jsnum \<Rightarrow> jsnum" where
  "jmul (Num a) (Num b) = finiteOf (a * b) ((a < 0) \<noteq> (b < 0))"
| "jmul (Num a) NegZero = signedZero (\<not> a < 0)"
| "jmul NegZero (Num b) = signedZero (\<not> b < 0)"
| "jmul NegZero NegZero = Num 0"
| "jmul NaN _ = NaN"
| "jmul _ NaN = NaN"
| "jmul NegZero _ = NaN"
| "jmul _ NegZero = NaN"
| "jmul (Num a) PInf = (if a = 0 then NaN else signedInf (0 < a))"
| "jmul (Num a) NInf = (if a = 0 then NaN else signedInf (a < 0))"
| "jmul PInf (Num b) = (if b = 0 then NaN else signedInf (0 < b))"
| "jmul NInf (Num b) = (if b = 0 then NaN else signedInf (b < 0))"
| "jmul PInf PInf = PInf"
| "jmul NInf NInf = PInf"
| "jmul PInf NInf = NInf"
| "jmul NInf PInf = NInf"

text \<open>
  \<open>x / y\<close>: a non-zero value over a zero is an infinity whose sign is the product
  of the signs, so \<open>x / -0\<close> is \<open>-Infinity\<close> for \<open>x > 0\<close>; a zero over a zero and an
  infinity over an infinity are \<open>NaN\<close>; the sign of a zero quotient is the product
  of the signs.
\<close>

fun jdiv :: "jsnum \<Rightarrow> jsnum \<Rightarrow> jsnum" where
  "jdiv (Num a) (Num b) =
     (if b = 0 then (if a = 0 then NaN else signedInf (0 < a))
      else finiteOf (a / b) ((a < 0) \<noteq> (b < 0)))"
| "jdiv (Num a) NegZero = (if a = 0 then NaN else signedInf (a < 0))"
| "jdiv NegZero (Num b) = (if b = 0 then NaN else signedZero (0 < b))"
| "jdiv NegZero NegZero = NaN"
| "jdiv NaN _ = NaN"
| "jdiv _ NaN = NaN"
| "jdiv (Num a) PInf = signedZero (a < 0)"
| "jdiv (Num a) NInf = signedZero (\<not> a < 0)"
| "jdiv NegZero PInf = NegZero"
| "jdiv NegZero NInf = Num 0"
| "jdiv PInf (Num b) = signedInf (0 \<le> b)"
| "jdiv NInf (Num b) = signedInf (b < 0)"
| "jdiv PInf NegZero = NInf"
| "jdiv NInf NegZero = PInf"
| "jdiv PInf PInf = NaN"
| "jdiv PInf NInf = NaN"
| "jdiv NInf PInf = NaN"
| "jdiv NInf NInf = NaN"

text \<open>Rounding toward zero, as the quotient of \<open>%\<close> is.\<close>

definition truncQuot :: "real \<Rightarrow> int" where
  "truncQuot q = (if 0 \<le> q then \<lfloor>q\<rfloor> else \<lceil>q\<rceil>)"

text \<open>\<open>x % y\<close>: the remainder has the sign of the dividend, also when it is zero.\<close>

fun jrem :: "jsnum \<Rightarrow> jsnum \<Rightarrow> jsnum" where
  "jrem (Num a) (Num b) =
     (if b = 0 then NaN else finiteOf (a - b * of_int (truncQuot (a / b))) (a < 0))"
| "jrem NegZero (Num b) = (if b = 0 then NaN else NegZero)"
| "jrem (Num a) PInf = Num a"
| "jrem (Num a) NInf = Num a"
| "jrem NegZero PInf = NegZero"
| "jrem NegZero NInf = NegZero"
| "jrem _ _ = NaN"

text \<open>
  \<open>Math.ceil\<close>, \<open>Math.floor\<close> and \<open>Math.round\<close> (halves round up). A negative
  argument that rounds to zero gives \<open>-0\<close>.
\<close>

fun Math_ceil :: "jsnum \<Rightarrow> jsnum" where
  "Math_ceil (Num a) = finiteOf (of_int \<lceil>a\<rceil>) (a < 0)"
| "Math_ceil x = x"

fun Math_floor :: "jsnum \<Rightarrow> jsnum" where
  "Math_floor (Num a) = Num (of_int \<lfloor>a\<rfloor>)"
| "Math_floor x = x"

fun Math_round :: "jsnum \<Rightarrow> jsnum" where
  "Math_round (Num a) = finiteOf (of_int \<lfloor>a + 1 / 2\<rfloor>) (a < 0)"
| "Math_round x = x"

text \<open>
  \<open>x > y\<close> and \<open>x <= y\<close>: every comparison with \<open>NaN\<close> is false, and \<open>-0\<close> compares
  as \<open>0\<close>.
\<close>

fun jgt :: "jsnum \<Rightarrow> jsnum \<Rightarrow> bool" where
  "jgt (Num a) (Num b) = (b < a)"
| "jgt (Num a) NegZero = (0 < a)"
| "jgt NegZero (Num b) = (b < 0)"
| "jgt NegZero NegZero = False"
| "jgt NaN _ = False"
| "jgt _ NaN = False"
| "jgt PInf PInf = False"
| "jgt PInf _ = True"
| "jgt NInf _ = False"
| "jgt _ NInf = True"
| "jgt _ PInf = False"

fun jle :: "jsnum \<Rightarrow> jsnum \<Rightarrow> bool" where
  "jle (Num a) (Num b) = (a \<le> b)"
| "jle (Num a) NegZero = (a \<le> 0)"
| "jle NegZero (Num b) = (0 \<le> b)"
| "jle NegZero NegZero = True"
| "jle NaN _ = False"
| "jle _ NaN = False"
| "jle NInf _ = True"
| "jle _ PInf = True"
| "jle PInf _ = False"
| "jle _ NInf = False"

text \<open>Truthiness of a number, for \<open>||\<close>: both zeros and \<open>NaN\<close> are falsy.\<close>

fun truthy :: "jsnum \<Rightarrow> bool" where
  "truthy (Num a) = (a \<noteq> 0)"
| "truthy NegZero = False"
| "truthy NaN = False"
| "truthy _ = True"

text \<open>\<open>Math.pow(10, 6)\<close>, the decimal scale of every amount.\<close>

definition scale :: jsnum where
  "scale = Num 1000000"

section \<open>Raw accounts and big integers\<close>

text \<open>
  The fields of \<open>DCAAccountType\<close> that the code reads (\<open>user\<close>, \<open>idx\<close> and \<open>bump\<close>
  are never read). Public keys are their base-58 strings. Amounts are \<open>BN\<close> values
  of the bn.js library, signed integers of any size.
\<close>

record DCAAccountType =
  publicKey :: string
  inputMint :: string
  outputMint :: string
  nextCycleAt :: int
  inDeposited :: int
  inWithdrawn :: int
  outWithdrawn :: int
  inUsed :: int
  inAmountPerCycle :: int
  cycleFrequency :: int
  minOutAmount :: "int option"
  maxOutAmount :: "int option"

text \<open>
  What the code can throw: a rejected network call, the two assertions of bn.js
  (\<open>toNumber\<close> on a value of more than 53 bits, \<open>mod\<close> by zero), the two
  errors that \<open>getDCAAccounts\<close> raises itself, and \<open>undefined\<close>, the initial
  value of \<open>lastError\<close> in \<open>withRetry\<close>.
\<close>

datatype error =
    FetchFailed
  | NumberTooLarge
  | AssertionFailed
  | NotInitialized
  | NoAccountsReturned
  | ThrownUndefined

text \<open>
  bn.js is a dependency of the repository, and its behaviour is taken from the
  library: \<open>BN.toNumber\<close> asserts that the magnitude fits 53 bits and throws
  otherwise, \<open>BN.mod\<close> asserts that the divisor is not zero and its remainder has
  the sign of the dividend, and \<open>BN.sub\<close> and \<open>BN.eq\<close> never throw.
  \<open>toNumber\<close> is the number that \<open>BN.toNumber\<close> returns when it does; each
  caller below first tests \<open>fits53\<close> on the values it converts. A \<open>BN\<close> zero has
  no sign, so the number is never \<open>-0\<close>.
\<close>

definition fits53 :: "int \<Rightarrow> bool" where
  "fits53 n = (\<bar>n\<bar> < 2 ^ 53)"

definition toNumber :: "int \<Rightarrow> jsnum" where
  "toNumber n = Num (of_int n)"

section \<open>Positions\<close>

text \<open>
  The \<open>Position\<close> that the converter returns, field by field. The fields \<open>id\<close>,
  \<open>type\<close>, \<open>publicKey\<close> and \<open>cycleFrequency\<close> carry the prefix \<open>position_\<close>,
  the others their names. \<open>maxPrice\<close> is a number, the string \<open>"No limit"\<close> or
  undefined.
\<close>

datatype order_type = BUY | SELL

datatype max_price = Limit jsnum | NoLimit

record CycleProgress =
  total :: jsnum
  used :: jsnum
  remaining :: jsnum
  percentComplete :: jsnum

record Position =
  position_id :: string
  token :: string
  position_type :: order_type
  inputToken :: string
  outputToken :: string
  inputAmount :: jsnum
  totalAmount :: jsnum
  amountPerCycle :: jsnum
  remainingCycles :: jsnum
  position_cycleFrequency :: jsnum
  lastUpdate :: jsnum
  position_publicKey :: string
  targetPrice :: jsnum
  currentPrice :: jsnum
  priceToken :: string
  estimatedOutput :: "jsnum option"
  totalCycles :: jsnum
  completedCycles :: jsnum
  isActive :: bool
  executionPrice :: jsnum
  maxPrice :: "max_price option"
  minPrice :: "jsnum option"
  remainingAmount :: jsnum
  estimatedTokens :: jsnum
  remainingInCycle :: jsnum
  cycleProgress :: CycleProgress

text \<open>
  The network calls of \<open>convertDCAAccount\<close>, as pre-fetched outcomes: whether the
  signature list (line 102) and the latest transaction (lines 249-264) were
  fetched, and what \<open>parseTransactionAmounts\<close> made of the transaction (\<open>None\<close>
  for its \<open>null\<close>).
\<close>

record TxAmounts =
  chaosReceived :: jsnum
  usdcPaid :: jsnum

record TxLookup =
  signaturesFetched :: bool
  transactionFetched :: bool
  amounts :: "TxAmounts option"

subsection \<open>The local constants of the converter\<close>

definition calc_totalCycles :: "DCAAccountType \<Rightarrow> jsnum" where
  "calc_totalCycles acc =
     Math_ceil (jdiv (toNumber (inDeposited acc)) (toNumber (inAmountPerCycle acc)))"

definition calc_completedFullCycles :: "DCAAccountType \<Rightarrow> jsnum" where
  "calc_completedFullCycles acc =
     Math_floor (jdiv (toNumber (inUsed acc)) (toNumber (inAmountPerCycle acc)))"

definition calc_currentCycleUsed :: "DCAAccountType \<Rightarrow> jsnum" where
  "calc_currentCycleUsed acc =
     jdiv (jrem (toNumber (inUsed acc)) (toNumber (inAmountPerCycle acc)))
          (toNumber (inAmountPerCycle acc))"

definition calc_remainingCycles :: "DCAAccountType \<Rightarrow> jsnum" where
  "calc_remainingCycles acc =
     jsub (jsub (calc_totalCycles acc) (calc_completedFullCycles acc))
          (calc_currentCycleUsed acc)"

definition calc_executionPrice :: "DCAAccountType \<Rightarrow> jsnum \<Rightarrow> jsnum" where
  "calc_executionPrice acc price =
     (if jgt (toNumber (inUsed acc)) (Num 0)
      then jdiv (toNumber (outWithdrawn acc)) (toNumber (inUsed acc))
      else price)"

definition calc_cycleAmount :: "DCAAccountType \<Rightarrow> jsnum" where
  "calc_cycleAmount acc = jdiv (toNumber (inAmountPerCycle acc)) scale"

definition calc_remainingValue :: "DCAAccountType \<Rightarrow> jsnum" where
  "calc_remainingValue acc = jmul (calc_remainingCycles acc) (calc_cycleAmount acc)"

definition calc_maxPrice :: "DCAAccountType \<Rightarrow> order_type \<Rightarrow> max_price option" where
  "calc_maxPrice acc ty =
     (case ty of
        BUY \<Rightarrow>
          (case maxOutAmount acc of
             Some m \<Rightarrow> Some (Limit (jdiv (calc_cycleAmount acc) (jdiv (toNumber m) scale)))
           | None \<Rightarrow> Some NoLimit)
      | SELL \<Rightarrow> None)"

definition calc_minPrice :: "DCAAccountType \<Rightarrow> order_type \<Rightarrow> jsnum option" where
  "calc_minPrice acc ty =
     (case ty of
        SELL \<Rightarrow>
          (case minOutAmount acc of
             Some m \<Rightarrow> Some (jdiv (jdiv (toNumber m) scale) (calc_cycleAmount acc))
           | None \<Rightarrow> None)
      | BUY \<Rightarrow> None)"

text \<open>\<open>inUsed.mod(inAmountPerCycle)\<close>: the remainder of bn.js truncates.\<close>

definition calc_usedInCurrentCycle :: "DCAAccountType \<Rightarrow> int" where
  "calc_usedInCurrentCycle acc = inUsed acc smod inAmountPerCycle acc"

definition calc_remainingInCycle :: "DCAAccountType \<Rightarrow> jsnum" where
  "calc_remainingInCycle acc =
     jdiv (toNumber (inAmountPerCycle acc - calc_usedInCurrentCycle acc)) scale"

text \<open>\<open>amounts?.usdcPaid || 0\<close>\<close>

definition calc_cycleUsed :: "TxLookup \<Rightarrow> jsnum" where
  "calc_cycleUsed tx =
     (case amounts tx of
        None \<Rightarrow> Num 0
      | Some a \<Rightarrow> (if truthy (usdcPaid a) then usdcPaid a else Num 0))"

definition calc_estimatedTokens :: "DCAAccountType \<Rightarrow> jsnum \<Rightarrow> order_type \<Rightarrow> jsnum" where
  "calc_estimatedTokens acc price ty =
     (case ty of
        BUY \<Rightarrow>
          (case calc_maxPrice acc ty of
             Some (Limit m) \<Rightarrow> jdiv (calc_remainingValue acc) m
           | _ \<Rightarrow> jdiv (calc_remainingValue acc) price)
      | SELL \<Rightarrow>
          jmul (calc_remainingValue acc)
            (case minOutAmount acc of
               Some m \<Rightarrow> jdiv (toNumber m) scale
             | None \<Rightarrow> price))"

subsection \<open>Where the converter throws\<close>

text \<open>
  The values converted with \<open>toNumber\<close> before the big-integer remainder of line
  217: \<open>inUsed\<close>, \<open>inAmountPerCycle\<close>, \<open>inDeposited\<close>, the difference of line 159,
  \<open>cycleFrequency\<close>, \<open>nextCycleAt\<close>, \<open>outWithdrawn\<close> when \<open>inUsed > 0\<close> (line 198)
  and the price bound of the order's own direction (lines 206 and 212).
\<close>

definition numbersBeforeMod :: "DCAAccountType \<Rightarrow> order_type \<Rightarrow> int list" where
  "numbersBeforeMod acc ty =
     [inUsed acc, inAmountPerCycle acc, inDeposited acc,
      inDeposited acc - inWithdrawn acc, cycleFrequency acc, nextCycleAt acc]
     @ (if 0 < inUsed acc then [outWithdrawn acc] else [])
     @ (case ty of
          BUY \<Rightarrow> (case maxOutAmount acc of Some m \<Rightarrow> [m] | None \<Rightarrow> [])
        | SELL \<Rightarrow> (case minOutAmount acc of Some m \<Rightarrow> [m] | None \<Rightarrow> []))"

text \<open>Those converted after it: line 218 and \<open>outWithdrawn\<close> in the log of line 245.\<close>

definition numbersAfterMod :: "DCAAccountType \<Rightarrow> int list" where
  "numbersAfterMod acc =
     [inAmountPerCycle acc - calc_usedInCurrentCycle acc, outWithdrawn acc]"

section \<open>The position converter\<close>

text \<open>
  \<open>convertDCAAccount\<close> (lines 100-320). It awaits the signature list, evaluates
  the logged and the returned quantities in source order, awaits the latest
  transaction and returns the position. The console output is not modelled.
\<close>

definition convertDCAAccount ::
  "DCAAccountType \<Rightarrow> jsnum \<Rightarrow> string \<Rightarrow> order_type \<Rightarrow> TxLookup \<Rightarrow> error + Position" where
  "convertDCAAccount acc price tok ty tx =
     (if \<not> signaturesFetched tx then Inl FetchFailed
      else if \<not> list_all fits53 (numbersBeforeMod acc ty) then Inl NumberTooLarge
      else if inAmountPerCycle acc = 0 then Inl AssertionFailed
      else if \<not> list_all fits53 (numbersAfterMod acc) then Inl NumberTooLarge
      else if \<not> transactionFetched tx then Inl FetchFailed
      else Inr \<lparr>
        position_id = publicKey acc,
        token = tok,
        position_type = ty,
        inputToken = (if ty = BUY then ''USDC'' else tok),
        outputToken = (if ty = BUY then tok else ''USDC''),
        inputAmount = calc_cycleAmount acc,
        totalAmount = jdiv (toNumber (inDeposited acc - inWithdrawn acc)) scale,
        amountPerCycle = calc_cycleAmount acc,
        remainingCycles = toNumber (cycleFrequency acc),
        position_cycleFrequency = toNumber (cycleFrequency acc),
        lastUpdate = jmul (toNumber (nextCycleAt acc)) (Num 1000),
        position_publicKey = publicKey acc,
        targetPrice = calc_executionPrice acc price,
        currentPrice = price,
        priceToken = ''USDC'',
        estimatedOutput =
          (if ty = SELL
           then Some (jmul (calc_cycleAmount acc) (calc_executionPrice acc price))
           else None),
        totalCycles = calc_totalCycles acc,
        completedCycles =
          jadd (calc_completedFullCycles acc) (calc_currentCycleUsed acc),
        isActive =
          (jgt (calc_remainingCycles acc) (Num 0) \<and> inUsed acc \<noteq> inDeposited acc),
        executionPrice = jdiv (calc_executionPrice acc price) scale,
        maxPrice = calc_maxPrice acc ty,
        minPrice = calc_minPrice acc ty,
        remainingAmount = jmul (calc_remainingCycles acc) (calc_cycleAmount acc),
        estimatedTokens = calc_estimatedTokens acc price ty,
        remainingInCycle = calc_remainingInCycle acc,
        cycleProgress = \<lparr>
          total = calc_cycleAmount acc,
          used = calc_cycleUsed tx,
          remaining = jsub (calc_cycleAmount acc) (calc_cycleUsed tx),
          percentComplete =
            jmul (jdiv (calc_cycleUsed tx) (calc_cycleAmount acc)) (Num 100) \<rparr> \<rparr>)"

section \<open>The summary aggregator\<close>

definition LOGOS_MINT :: string where
  "LOGOS_MINT = ''HJUfqXoYjC653f2p33i84zdCC3jc4EuVnbruSe5kpump''"

definition CHAOS_MINT :: string where
  "CHAOS_MINT = ''8SgNwESovnbG1oNEaPVhg6CR9mTMSK7jPvcYRe3wpump''"

record TokenAccounts =
  buys :: "DCAAccountType list"
  sells :: "DCAAccountType list"

record AccountsByToken =
  LOGOS :: TokenAccounts
  CHAOS :: TokenAccounts

record Prices =
  price_LOGOS :: jsnum
  price_CHAOS :: jsnum

record TokenSummary =
  buyOrders :: nat
  sellOrders :: nat
  buyVolume :: jsnum
  sellVolume :: jsnum
  buyVolumeUSDC :: jsnum
  sellVolumeUSDC :: jsnum
  price :: jsnum

text \<open>\<open>isOrderActive\<close> (lines 564-566).\<close>

definition isOrderActive :: "DCAAccountType \<Rightarrow> bool" where
  "isOrderActive acc = (inUsed acc \<noteq> inDeposited acc)"

text \<open>
  The body of the buy-side reducers (lines 509-512): whole cycles left, times the
  cycle amount in USDC.
\<close>

definition remainingUSDC :: "DCAAccountType \<Rightarrow> jsnum" where
  "remainingUSDC acc =
     jmul (jsub (Math_ceil (jdiv (toNumber (inDeposited acc)) (toNumber (inAmountPerCycle acc))))
                (Math_floor (jdiv (toNumber (inUsed acc)) (toNumber (inAmountPerCycle acc)))))
          (jdiv (toNumber (inAmountPerCycle acc)) scale)"

text \<open>The sell-side amount \<open>inDeposited.sub(inWithdrawn).toNumber() / 10^6\<close>.\<close>

definition sellAmount :: "DCAAccountType \<Rightarrow> jsnum" where
  "sellAmount acc = jdiv (toNumber (inDeposited acc - inWithdrawn acc)) scale"

text \<open>
  One entry of the summary object. The source writes this block twice, for
  \<open>LOGOS\<close> (lines 503-530) and for \<open>CHAOS\<close> (lines 531-558), with the same text
  up to the token's name. Each \<open>reduce\<close> starts from \<open>0\<close> and runs left to right.
\<close>

definition tokenSummary :: "TokenAccounts \<Rightarrow> jsnum \<Rightarrow> TokenSummary" where
  "tokenSummary accs p = \<lparr>
     buyOrders = length (filter isOrderActive (buys accs)),
     sellOrders = length (filter isOrderActive (sells accs)),
     buyVolume =
       Math_round (foldl (\<lambda>sum acc. jadd sum (jdiv (remainingUSDC acc) p)) (Num 0)
                         (filter isOrderActive (buys accs))),
     sellVolume =
       foldl (\<lambda>sum acc. jadd sum (sellAmount acc)) (Num 0)
             (filter isOrderActive (sells accs)),
     buyVolumeUSDC =
       Math_round (foldl (\<lambda>sum acc. jadd sum (remainingUSDC acc)) (Num 0)
                         (filter isOrderActive (buys accs))),
     sellVolumeUSDC =
       Math_round (foldl (\<lambda>sum acc. jadd sum (jmul (sellAmount acc) p)) (Num 0)
                         (filter isOrderActive (sells accs))),
     price = p \<rparr>"

text \<open>
  The big integers that the aggregator converts with \<open>toNumber\<close>: the difference
  of every LOGOS sell account, active or not, for the logged total of lines
  481-500, then the fields of the active accounts that the summary reads.
\<close>

definition buyNumbers :: "DCAAccountType \<Rightarrow> int list" where
  "buyNumbers acc = [inDeposited acc, inAmountPerCycle acc, inUsed acc]"

definition sellNumber :: "DCAAccountType \<Rightarrow> int" where
  "sellNumber acc = inDeposited acc - inWithdrawn acc"

definition tokenNumbers :: "TokenAccounts \<Rightarrow> int list" where
  "tokenNumbers accs =
     concat (map buyNumbers (filter isOrderActive (buys accs)))
     @ map sellNumber (filter isOrderActive (sells accs))"

definition summaryNumbers :: "AccountsByToken \<Rightarrow> int list" where
  "summaryNumbers abt =
     map sellNumber (sells (LOGOS abt)) @ tokenNumbers (LOGOS abt) @ tokenNumbers (CHAOS abt)"

text \<open>\<open>calculateSummaryFromRawAccounts\<close> (lines 469-562).\<close>

definition calculateSummaryFromRawAccounts ::
  "AccountsByToken \<Rightarrow> Prices \<Rightarrow> error + (string \<rightharpoonup> TokenSummary)" where
  "calculateSummaryFromRawAccounts abt prices =
     (if \<not> list_all fits53 (summaryNumbers abt) then Inl NumberTooLarge
      else Inr [''LOGOS'' \<mapsto> tokenSummary (LOGOS abt) (price_LOGOS prices),
                ''CHAOS'' \<mapsto> tokenSummary (CHAOS abt) (price_CHAOS prices)])"

section \<open>Fetching with retries\<close>

text \<open>
  \<open>withRetry\<close> (lines 60-73). \<open>operation i\<close> is the outcome of the invocation made
  in round \<open>i\<close> of the loop, \<open>Inl\<close> when it throws. The second component of the
  result counts the invocations made. The waiting between rounds is not modelled.
\<close>

function withRetry_loop ::
  "(nat \<Rightarrow> error + 'a) \<Rightarrow> nat \<Rightarrow> nat \<Rightarrow> error \<Rightarrow> (error + 'a) \<times> nat" where
  "withRetry_loop operation maxRetries i lastError =
     (if i < maxRetries
      then (case operation i of
              Inr v \<Rightarrow> (Inr v, Suc i)
            | Inl e \<Rightarrow> withRetry_loop operation maxRetries (Suc i) e)
      else (Inl lastError, i))"
  by pat_completeness auto
termination
  by (relation "measure (\<lambda>(operation, maxRetries, i, lastError). maxRetries - i)") auto

definition withRetry :: "(nat \<Rightarrow> error + 'a) \<Rightarrow> nat \<Rightarrow> (error + 'a) \<times> nat" where
  "withRetry operation maxRetries = withRetry_loop operation maxRetries 0 ThrownUndefined"

text \<open>The default \<open>maxRetries = 3\<close>.\<close>

definition withRetry_default :: "(nat \<Rightarrow> error + 'a) \<Rightarrow> (error + 'a) \<times> nat" where
  "withRetry_default operation = withRetry operation 3"

section \<open>One poll\<close>

record ChartDataPoint =
  point_timestamp :: jsnum
  point_buyVolume :: jsnum
  point_sellVolume :: jsnum
  point_buyOrders :: nat
  point_sellOrders :: nat

record PollResult =
  result_positions :: "Position list"
  result_summary :: "string \<rightharpoonup> TokenSummary"
  result_chartData :: "string \<rightharpoonup> ChartDataPoint list"

text \<open>
  What one call of \<open>getDCAAccounts\<close> reads from outside: whether the SDK client
  exists, the outcome of each successive \<open>this.dca.getAll()\<close> (a rejection, or the
  value it resolves to, \<open>None\<close> for a null one), the two prices that
  \<open>getCurrentPrice\<close> returns (it never throws), the transaction lookups of each
  account by its public key, and the clock at the two \<open>Date.now()\<close> calls.
\<close>

record Provider =
  dcaInitialized :: bool
  getAll :: "nat \<Rightarrow> error + DCAAccountType list option"
  logosPrice :: jsnum
  chaosPrice :: jsnum
  txLookup :: "string \<Rightarrow> TxLookup"
  now_LOGOS :: jsnum
  now_CHAOS :: jsnum

text \<open>The operation wrapped in retry logic (lines 333-339).\<close>

definition fetchAccounts :: "Provider \<Rightarrow> nat \<Rightarrow> error + DCAAccountType list" where
  "fetchAccounts w i =
     (case getAll w i of
        Inl e \<Rightarrow> Inl e
      | Inr None \<Rightarrow> Inl NoAccountsReturned
      | Inr (Some accounts) \<Rightarrow>
          (if accounts = [] then Inl NoAccountsReturned else Inr accounts))"

text \<open>The categorisation of lines 350-359.\<close>

definition accountsByToken :: "DCAAccountType list \<Rightarrow> AccountsByToken" where
  "accountsByToken allAccounts = \<lparr>
     LOGOS = \<lparr> buys = filter (\<lambda>acc. outputMint acc = LOGOS_MINT) allAccounts,
               sells = filter (\<lambda>acc. inputMint acc = LOGOS_MINT) allAccounts \<rparr>,
     CHAOS = \<lparr> buys = filter (\<lambda>acc. outputMint acc = CHAOS_MINT) allAccounts,
               sells = filter (\<lambda>acc. inputMint acc = CHAOS_MINT) allAccounts \<rparr> \<rparr>"

text \<open>
  \<open>Promise.all\<close>: the values in order, or a rejection. When several promises
  reject, the one surfaced here is the first in list order (in the source, the
  first in time).
\<close>

fun Promise_all :: "(error + 'a) list \<Rightarrow> error + 'a list" where
  "Promise_all [] = Inr []"
| "Promise_all (r # rs) =
     (case r of
        Inl e \<Rightarrow> Inl e
      | Inr v \<Rightarrow> (case Promise_all rs of Inl e \<Rightarrow> Inl e | Inr vs \<Rightarrow> Inr (v # vs)))"

text \<open>The four groups of conversions of lines 419-432, active accounts only.\<close>

definition convertGroup ::
  "Provider \<Rightarrow> jsnum \<Rightarrow> string \<Rightarrow> order_type \<Rightarrow> DCAAccountType list \<Rightarrow> (error + Position) list" where
  "convertGroup w pr tok ty accs =
     map (\<lambda>acc. convertDCAAccount acc pr tok ty (txLookup w (publicKey acc)))
         (filter isOrderActive accs)"

definition conversions :: "Provider \<Rightarrow> AccountsByToken \<Rightarrow> error + Position list" where
  "conversions w abt =
     Promise_all
       (convertGroup w (logosPrice w) ''LOGOS'' BUY (buys (LOGOS abt))
        @ convertGroup w (logosPrice w) ''LOGOS'' SELL (sells (LOGOS abt))
        @ convertGroup w (chaosPrice w) ''CHAOS'' BUY (buys (CHAOS abt))
        @ convertGroup w (chaosPrice w) ''CHAOS'' SELL (sells (CHAOS abt)))"

text \<open>One point of the chart, from the token's summary (lines 441-456).\<close>

definition chartPoint :: "jsnum \<Rightarrow> TokenSummary \<Rightarrow> ChartDataPoint" where
  "chartPoint t s = \<lparr>
     point_timestamp = t,
     point_buyVolume = buyVolume s,
     point_sellVolume = sellVolume s,
     point_buyOrders = buyOrders s,
     point_sellOrders = sellOrders s \<rparr>"

text \<open>
  The part of \<open>getDCAAccounts\<close> after the fetch (lines 341-462), on the list of
  accounts fetched: their categorisation, the summary, the positions, and a chart
  series of one point for each token. The summary has both keys, so
  \<open>summary.LOGOS\<close> and \<open>summary.CHAOS\<close> are defined.
\<close>

definition processAccounts :: "Provider \<Rightarrow> DCAAccountType list \<Rightarrow> error + PollResult" where
  "processAccounts w allAccounts =
     (case calculateSummaryFromRawAccounts (accountsByToken allAccounts)
             \<lparr> price_LOGOS = logosPrice w, price_CHAOS = chaosPrice w \<rparr> of
        Inl e \<Rightarrow> Inl e
      | Inr summary \<Rightarrow>
          (case conversions w (accountsByToken allAccounts) of
             Inl e \<Rightarrow> Inl e
           | Inr converted \<Rightarrow>
               Inr \<lparr>
                 result_positions =
                   map (\<lambda>pos. pos\<lparr>currentPrice :=
                          (if token pos = ''LOGOS'' then logosPrice w else chaosPrice w)\<rparr>)
                       converted,
                 result_summary = summary,
                 result_chartData =
                   [''LOGOS'' \<mapsto> [chartPoint (now_LOGOS w) (the (summary ''LOGOS''))],
                    ''CHAOS'' \<mapsto> [chartPoint (now_CHAOS w) (the (summary ''CHAOS''))]] \<rparr>))"

text \<open>
  \<open>getDCAAccounts\<close> (lines 322-467): the accounts are fetched with the default
  number of retries and processed. The \<open>catch\<close> logs and rethrows.
\<close>

definition getDCAAccounts :: "Provider \<Rightarrow> error + PollResult" where
  "getDCAAccounts w =
     (if \<not> dcaInitialized w then Inl NotInitialized
      else case fst (withRetry_default (fetchAccounts w)) of
        Inl e \<Rightarrow> Inl e
      | Inr allAccounts \<Rightarrow> processAccounts w allAccounts)"

section \<open>The dashboard\<close>

text \<open>
  The state of \<open>DCADashboard\<close> that a fetch writes (\<open>lastUpdate\<close> and
  \<open>autoRefresh\<close> are left out).
\<close>

record Dashboard =
  chartData :: "string \<rightharpoonup> ChartDataPoint list"
  summaryData :: "string \<rightharpoonup> TokenSummary"
  positions :: "Position list"
  loading :: bool
  error_message :: "string option"

definition initialDashboard :: Dashboard where
  "initialDashboard = \<lparr>
     chartData = Map.empty, summaryData = Map.empty, positions = [],
     loading = True, error_message = None \<rparr>"

text \<open>
  \<open>fetchData\<close> (lines 136-159), applied to the outcome of its call of
  \<open>getDCAAccounts\<close>. The test \<open>!data.positions || !data.summary\<close> never holds:
  both are objects. On failure the state keeps \<open>loading\<close>, shows the message and
  another \<open>fetchData\<close> is scheduled.
\<close>

definition fetchData :: "Dashboard \<Rightarrow> error + PollResult \<Rightarrow> Dashboard" where
  "fetchData st outcome =
     (case outcome of
        Inr data \<Rightarrow>
          st\<lparr> loading := False, error_message := None,
               positions := result_positions data,
               summaryData := result_summary data,
               chartData := result_chartData data \<rparr>
      | Inl e \<Rightarrow>
          st\<lparr> loading := True,
               error_message := Some ''Failed to fetch data. Retrying...'' \<rparr>)"

text \<open>The dashboard after a sequence of polls, each completed before the next.\<close>

definition polls :: "Dashboard \<Rightarrow> Provider list \<Rightarrow> Dashboard" where
  "polls st ws = foldl (\<lambda>st w. fetchData st (getDCAAccounts w)) st ws"

section \<open>Concrete inputs\<close>

text \<open>Lookups that succeed, with a transaction that \<open>parseTransactionAmounts\<close> rejects.\<close>

definition lookup_ok :: TxLookup where
  "lookup_ok = \<lparr> signaturesFetched = True, transactionFetched = True, amounts = None \<rparr>"

text \<open>The account of the scenario of section 8: one cycle of 607.037037 used exactly.\<close>

definition scenario_account :: DCAAccountType where
  "scenario_account = \<lparr>
     publicKey = ''scenario'', inputMint = ''USDC'', outputMint = LOGOS_MINT,
     nextCycleAt = 0, inDeposited = 1000000000, inWithdrawn = 0, outWithdrawn = 0,
     inUsed = 607037037, inAmountPerCycle = 607037037, cycleFrequency = 60,
     minOutAmount = None, maxOutAmount = None \<rparr>"

text \<open>An account two and a half cycles into ten.\<close>

definition partial_account :: DCAAccountType where
  "partial_account = \<lparr>
     publicKey = ''partial'', inputMint = ''USDC'', outputMint = LOGOS_MINT,
     nextCycleAt = 0, inDeposited = 1000, inWithdrawn = 0, outWithdrawn = 0,
     inUsed = 250, inAmountPerCycle = 100, cycleFrequency = 60,
     minOutAmount = None, maxOutAmount = None \<rparr>"

text \<open>An account whose cycle amount is zero.\<close>

definition zero_cycle_account :: DCAAccountType where
  "zero_cycle_account = \<lparr>
     publicKey = ''zero'', inputMint = ''USDC'', outputMint = LOGOS_MINT,
     nextCycleAt = 0, inDeposited = 1000, inWithdrawn = 0, outWithdrawn = 0,
     inUsed = 0, inAmountPerCycle = 0, cycleFrequency = 60,
     minOutAmount = None, maxOutAmount = None \<rparr>"

text \<open>An account that has used more than was deposited.\<close>

definition overused_account :: DCAAccountType where
  "overused_account = \<lparr>
     publicKey = ''overused'', inputMint = ''USDC'', outputMint = LOGOS_MINT,
     nextCycleAt = 0, inDeposited = 10, inWithdrawn = 0, outWithdrawn = 0,
     inUsed = 20, inAmountPerCycle = 10, cycleFrequency = 60,
     minOutAmount = None, maxOutAmount = None \<rparr>"

text \<open>A buy order and a sell order with price bounds.\<close>

definition bounded_account :: DCAAccountType where
  "bounded_account = \<lparr>
     publicKey = ''bounded'', inputMint = ''USDC'', outputMint = LOGOS_MINT,
     nextCycleAt = 0, inDeposited = 1000, inWithdrawn = 0, outWithdrawn = 0,
     inUsed = 250, inAmountPerCycle = 100, cycleFrequency = 60,
     minOutAmount = Some 50, maxOutAmount = Some 400 \<rparr>"

definition sell_account :: DCAAccountType where
  "sell_account = \<lparr>
     publicKey = ''sell'', inputMint = LOGOS_MINT, outputMint = ''USDC'',
     nextCycleAt = 0, inDeposited = 5000, inWithdrawn = 1000, outWithdrawn = 0,
     inUsed = 1000, inAmountPerCycle = 500, cycleFrequency = 60,
     minOutAmount = Some 50, maxOutAmount = None \<rparr>"

text \<open>A completed order: everything deposited is used.\<close>

definition completed_account :: DCAAccountType where
  "completed_account = \<lparr>
     publicKey = ''completed'', inputMint = ''USDC'', outputMint = LOGOS_MINT,
     nextCycleAt = 0, inDeposited = 1000, inWithdrawn = 0, outWithdrawn = 0,
     inUsed = 1000, inAmountPerCycle = 100, cycleFrequency = 60,
     minOutAmount = None, maxOutAmount = None \<rparr>"

text \<open>An active order that buys CHAOS.\<close>

definition chaos_buy_account :: DCAAccountType where
  "chaos_buy_account = \<lparr>
     publicKey = ''chaosbuy'', inputMint = ''USDC'', outputMint = CHAOS_MINT,
     nextCycleAt = 0, inDeposited = 600, inWithdrawn = 0, outWithdrawn = 0,
     inUsed = 0, inAmountPerCycle = 200, cycleFrequency = 60,
     minOutAmount = None, maxOutAmount = None \<rparr>"

definition sample_accounts :: AccountsByToken where
  "sample_accounts = \<lparr>
     LOGOS = \<lparr> buys = [partial_account, completed_account], sells = [sell_account] \<rparr>,
     CHAOS = \<lparr> buys = [chaos_buy_account], sells = [] \<rparr> \<rparr>"

definition zero_prices :: Prices where
  "zero_prices = \<lparr> price_LOGOS = Num 0, price_CHAOS = Num 0 \<rparr>"

definition sample_prices :: Prices where
  "sample_prices = \<lparr> price_LOGOS = Num (1 / 2), price_CHAOS = Num 2 \<rparr>"

text \<open>Prices of \<open>-0\<close>, as \<open>Number("-0")\<close> is, and infinite prices.\<close>

definition negative_zero_prices :: Prices where
  "negative_zero_prices = \<lparr> price_LOGOS = NegZero, price_CHAOS = NegZero \<rparr>"

definition infinite_prices :: Prices where
  "infinite_prices = \<lparr> price_LOGOS = PInf, price_CHAOS = PInf \<rparr>"

text \<open>An active sell order whose deposit is withdrawn in full.\<close>

definition drained_sell_account :: DCAAccountType where
  "drained_sell_account = \<lparr>
     publicKey = ''drained'', inputMint = LOGOS_MINT, outputMint = ''USDC'',
     nextCycleAt = 0, inDeposited = 1000, inWithdrawn = 1000, outWithdrawn = 0,
     inUsed = 0, inAmountPerCycle = 100, cycleFrequency = 60,
     minOutAmount = None, maxOutAmount = None \<rparr>"

definition drained_accounts :: AccountsByToken where
  "drained_accounts = \<lparr>
     LOGOS = \<lparr> buys = [], sells = [drained_sell_account] \<rparr>,
     CHAOS = \<lparr> buys = [], sells = [] \<rparr> \<rparr>"

text \<open>An order between two tokens that the dashboard does not track.\<close>

definition untracked_account :: DCAAccountType where
  "untracked_account = \<lparr>
     publicKey = ''untracked'', inputMint = ''USDC'', outputMint = ''WSOL'',
     nextCycleAt = 0, inDeposited = 700, inWithdrawn = 0, outWithdrawn = 0,
     inUsed = 0, inAmountPerCycle = 0, cycleFrequency = 60,
     minOutAmount = None, maxOutAmount = None \<rparr>"

text \<open>A provider that answers at once, with one active LOGOS buy order.\<close>

definition sample_provider :: Provider where
  "sample_provider = \<lparr>
     dcaInitialized = True,
     getAll = (\<lambda>i. Inr (Some [partial_account])),
     logosPrice = Num (1 / 2),
     chaosPrice = Num 2,
     txLookup = (\<lambda>key. lookup_ok),
     now_LOGOS = Num 1000,
     now_CHAOS = Num 1001 \<rparr>"

text \<open>The same provider, answering with an untracked order as well.\<close>

definition mixed_provider :: Provider where
  "mixed_provider =
     sample_provider\<lparr> getAll := (\<lambda>i. Inr (Some [untracked_account, partial_account])) \<rparr>"

text \<open>An operation that throws twice and then returns \<open>7\<close>.\<close>

definition flaky_operation :: "nat \<Rightarrow> error + nat" where
  "flaky_operation i = (if i < 2 then Inl FetchFailed else Inr 7)"

text \<open>An operation that always throws.\<close>

definition failing_operation :: "nat \<Rightarrow> error + nat" where
  "failing_operation i = Inl (if i = 2 then NoAccountsReturned else FetchFailed)"

section \<open>Input conditions\<close>

text \<open>
  The invariants that the data model states for a raw account:
  \<open>0 \<le> withdrawn \<le> deposited\<close>, \<open>0 \<le> used \<le> deposited\<close> and \<open>amountPerCycle > 0\<close>.
\<close>

definition wellFormed :: "DCAAccountType \<Rightarrow> bool" where
  "wellFormed acc =
     (0 \<le> inWithdrawn acc \<and> inWithdrawn acc \<le> inDeposited acc
      \<and> 0 \<le> inUsed acc \<and> inUsed acc \<le> inDeposited acc
      \<and> 0 < inAmountPerCycle acc)"

text \<open>The categorised accounts without the completed orders.\<close>

definition activeOnly :: "AccountsByToken \<Rightarrow> AccountsByToken" where
  "activeOnly abt = \<lparr>
     LOGOS = \<lparr> buys = filter isOrderActive (buys (LOGOS abt)),
               sells = filter isOrderActive (sells (LOGOS abt)) \<rparr>,
     CHAOS = \<lparr> buys = filter isOrderActive (buys (CHAOS abt)),
               sells = filter isOrderActive (sells (CHAOS abt)) \<rparr> \<rparr>"

text \<open>An account one of whose mints is LOGOS or CHAOS.\<close>

definition tracked :: "DCAAccountType \<Rightarrow> bool" where
  "tracked acc =
     (inputMint acc = LOGOS_MINT \<or> inputMint acc = CHAOS_MINT
      \<or> outputMint acc = LOGOS_MINT \<or> outputMint acc = CHAOS_MINT)"

section \<open>Properties of the arithmetic\<close>

lemma finiteOf_nonzero: "r \<noteq> 0 \<Longrightarrow> finiteOf r negative = Num r"
  by (simp add: finiteOf_def)

lemma finiteOf_positive_sign: "finiteOf r False = Num r"
  by (simp add: finiteOf_def signedZero_def)

lemma jsub_Num: "jsub (Num a) (Num b) = Num (a - b)"
  by (simp add: jsub_def finiteOf_def signedZero_def)

lemma jdiv_nonneg: "0 \<le> a \<Longrightarrow> 0 < b \<Longrightarrow> jdiv (Num a) (Num b) = Num (a / b)"
  by (simp add: finiteOf_def signedZero_def)

lemma jmul_nonneg: "0 \<le> a \<Longrightarrow> 0 \<le> b \<Longrightarrow> jmul (Num a) (Num b) = Num (a * b)"
  by (auto simp: finiteOf_def signedZero_def)

lemma Math_ceil_nonneg: "0 \<le> a \<Longrightarrow> Math_ceil (Num a) = Num (of_int \<lceil>a\<rceil>)"
  by (simp add: finiteOf_def signedZero_def)

lemma Math_round_nonneg: "0 \<le> a \<Longrightarrow> Math_round (Num a) = Num (of_int \<lfloor>a + 1 / 2\<rfloor>)"
  by (simp add: finiteOf_def signedZero_def)

section \<open>Properties of the converter\<close>

lemma convert_Inr_fields:
  assumes "convertDCAAccount acc pr tok ty tx = Inr p"
  shows "totalCycles p = calc_totalCycles acc"
    and "completedCycles p = jadd (calc_completedFullCycles acc) (calc_currentCycleUsed acc)"
    and "remainingInCycle p = calc_remainingInCycle acc"
    and "isActive p = (jgt (calc_remainingCycles acc) (Num 0) \<and> inUsed acc \<noteq> inDeposited acc)"
    and "maxPrice p = calc_maxPrice acc ty"
    and "minPrice p = calc_minPrice acc ty"
    and "inAmountPerCycle acc \<noteq> 0"
  using assms by (auto simp: convertDCAAccount_def split: if_splits)

lemma scenario_converts:
  "convertDCAAccount scenario_account (Num 1) ''LOGOS'' BUY lookup_ok =
   Inr (projr (convertDCAAccount scenario_account (Num 1) ''LOGOS'' BUY lookup_ok))"
  by (simp add: convertDCAAccount_def scenario_account_def lookup_ok_def numbersBeforeMod_def
      numbersAfterMod_def fits53_def calc_usedInCurrentCycle_def signed_modulo_int_def)

lemma partial_converts:
  "convertDCAAccount partial_account (Num 1) ''LOGOS'' BUY lookup_ok =
   Inr (projr (convertDCAAccount partial_account (Num 1) ''LOGOS'' BUY lookup_ok))"
  by (simp add: convertDCAAccount_def partial_account_def lookup_ok_def numbersBeforeMod_def
      numbersAfterMod_def fits53_def calc_usedInCurrentCycle_def signed_modulo_int_def)

subsection \<open>The scenario of one used cycle\<close>

text \<open>
  C1, as the code has it. For an account with \<open>deposited = 1_000_000_000\<close>,
  \<open>withdrawn = 0\<close>, \<open>used = 607_037_037\<close> and \<open>amountPerCycle = 607_037_037\<close>, a
  position that the converter returns has \<open>totalCycles = 2\<close> and
  \<open>completedCycles = 1\<close>, and its \<open>remainingInCycle\<close> is the whole cycle amount,
  \<open>607037037 / 10^6\<close>: nothing of the current cycle is used.
\<close>

theorem scenario_cycles:
  assumes "inDeposited acc = 1000000000" and "inWithdrawn acc = 0"
    and "inUsed acc = 607037037" and "inAmountPerCycle acc = 607037037"
    and "convertDCAAccount acc pr tok ty tx = Inr p"
  shows "totalCycles p = Num 2 \<and> completedCycles p = Num 1
         \<and> remainingInCycle p = Num (607037037 / 1000000)"
  using assms(1-4) convert_Inr_fields(1-3)[OF assms(5)]
  by (simp add: calc_totalCycles_def calc_completedFullCycles_def calc_currentCycleUsed_def
      calc_remainingInCycle_def calc_usedInCurrentCycle_def toNumber_def finiteOf_def signedZero_def scale_def truncQuot_def
      signed_modulo_int_def)

theorem scenario_cycles_witness:
  "inDeposited scenario_account = 1000000000 \<and> inWithdrawn scenario_account = 0
   \<and> inUsed scenario_account = 607037037 \<and> inAmountPerCycle scenario_account = 607037037
   \<and> \<not> isl (convertDCAAccount scenario_account (Num 1) ''LOGOS'' BUY lookup_ok)
   \<and> totalCycles (projr (convertDCAAccount scenario_account (Num 1) ''LOGOS'' BUY lookup_ok)) = Num 2
   \<and> completedCycles (projr (convertDCAAccount scenario_account (Num 1) ''LOGOS'' BUY lookup_ok)) = Num 1
   \<and> remainingInCycle (projr (convertDCAAccount scenario_account (Num 1) ''LOGOS'' BUY lookup_ok))
       = Num (607037037 / 1000000)"
proof -
  have f: "inDeposited scenario_account = 1000000000" "inWithdrawn scenario_account = 0"
    "inUsed scenario_account = 607037037" "inAmountPerCycle scenario_account = 607037037"
    by (simp_all add: scenario_account_def)
  have "\<not> isl (convertDCAAccount scenario_account (Num 1) ''LOGOS'' BUY lookup_ok)"
    using scenario_converts by (metis sum.disc(2))
  then show ?thesis
    using f scenario_cycles[OF f scenario_converts] by simp
qed

text \<open>
  C1, as stated, fails: on the scenario's account the conversion succeeds and
  \<open>remainingInCycle\<close> is \<open>607.037037\<close>, not \<open>0\<close>.
\<close>

theorem scenario_remainingInCycle_not_zero:
  "\<not> isl (convertDCAAccount scenario_account (Num 1) ''LOGOS'' BUY lookup_ok)
   \<and> remainingInCycle (projr (convertDCAAccount scenario_account (Num 1) ''LOGOS'' BUY lookup_ok))
       = Num (607037037 / 1000000)
   \<and> remainingInCycle (projr (convertDCAAccount scenario_account (Num 1) ''LOGOS'' BUY lookup_ok))
       \<noteq> Num 0"
  by (simp add: convertDCAAccount_def scenario_account_def lookup_ok_def numbersBeforeMod_def
      numbersAfterMod_def fits53_def calc_usedInCurrentCycle_def signed_modulo_int_def
      calc_remainingInCycle_def toNumber_def finiteOf_def signedZero_def scale_def)

subsection \<open>Completed cycles never exceed total cycles\<close>

lemma jrem_toNumber_nonneg:
  assumes "0 \<le> u" and "0 < a"
  shows "jrem (toNumber u) (toNumber a) = Num (of_int (u mod a))"
proof -
  have q: "0 \<le> (of_int u :: real) / of_int a"
    using assms by simp
  have "truncQuot (of_int u / of_int a) = u div a"
    using q by (simp add: truncQuot_def floor_divide_of_int_eq)
  moreover have "(of_int u :: real) - of_int a * of_int (u div a) = of_int (u mod a)"
    by (simp add: minus_mult_div_eq_mod flip: of_int_mult of_int_diff)
  ultimately show ?thesis
    using assms by (simp add: toNumber_def finiteOf_def signedZero_def)
qed

lemma completedFullCycles_eq:
  assumes "0 < a" and "inAmountPerCycle acc = a" and "inUsed acc = u"
  shows "calc_completedFullCycles acc = Num (of_int (u div a))"
  using assms
  by (simp add: calc_completedFullCycles_def toNumber_def finiteOf_def signedZero_def
      floor_divide_of_int_eq)

lemma totalCycles_eq:
  assumes "0 \<le> inDeposited acc" and "0 < inAmountPerCycle acc"
  shows "calc_totalCycles acc =
         Num (of_int \<lceil>(of_int (inDeposited acc) :: real) / of_int (inAmountPerCycle acc)\<rceil>)"
proof -
  have q: "0 \<le> (of_int (inDeposited acc) :: real) / of_int (inAmountPerCycle acc)"
    using assms by simp
  have "jdiv (toNumber (inDeposited acc)) (toNumber (inAmountPerCycle acc)) =
      Num (of_int (inDeposited acc) / of_int (inAmountPerCycle acc))"
    using assms by (simp add: toNumber_def jdiv_nonneg finiteOf_positive_sign)
  then show ?thesis
    using Math_ceil_nonneg[OF q] by (simp add: calc_totalCycles_def)
qed

lemma currentCycleUsed_eq:
  assumes "0 \<le> inUsed acc" and "0 < inAmountPerCycle acc"
  shows "calc_currentCycleUsed acc =
         Num (of_int (inUsed acc mod inAmountPerCycle acc) / of_int (inAmountPerCycle acc))"
  using assms by (simp add: calc_currentCycleUsed_def jrem_toNumber_nonneg) (simp add: toNumber_def finiteOf_def signedZero_def)

lemma whole_plus_fraction:
  fixes u a :: int
  assumes "0 < a"
  shows "(of_int (u div a) :: real) + of_int (u mod a) / of_int a = of_int u / of_int a"
proof -
  have "(of_int u :: real) = of_int (u div a) * of_int a + of_int (u mod a)"
    by (simp flip: of_int_mult of_int_add)
  then show ?thesis using assms by (simp add: field_simps)
qed

text \<open>
  C5. For an account with \<open>0 \<le> used \<le> deposited\<close> and \<open>amountPerCycle > 0\<close>, the
  position that the converter returns has
  \<open>completedCycles = floor(used / amountPerCycle) + (used mod amountPerCycle) / amountPerCycle\<close>,
  \<open>totalCycles = ceil(deposited / amountPerCycle)\<close> and \<open>completedCycles \<le> totalCycles\<close>.
\<close>

theorem completedCycles_le_totalCycles:
  assumes conv: "convertDCAAccount acc pr tok ty tx = Inr p"
    and "0 \<le> inUsed acc" and "inUsed acc \<le> inDeposited acc" and "0 < inAmountPerCycle acc"
  shows "completedCycles p =
           Num (of_int (inUsed acc div inAmountPerCycle acc)
                + of_int (inUsed acc mod inAmountPerCycle acc) / of_int (inAmountPerCycle acc))
         \<and> totalCycles p =
           Num (of_int \<lceil>(of_int (inDeposited acc) :: real) / of_int (inAmountPerCycle acc)\<rceil>)
         \<and> jle (completedCycles p) (totalCycles p)"
proof -
  let ?a = "inAmountPerCycle acc" and ?u = "inUsed acc" and ?d = "inDeposited acc"
  have c: "completedCycles p = Num (of_int (?u div ?a) + of_int (?u mod ?a) / of_int ?a)"
    using assms convert_Inr_fields(2)[OF conv] completedFullCycles_eq[of ?a acc ?u]
      currentCycleUsed_eq[of acc] by simp
  have t: "totalCycles p = Num (of_int \<lceil>(of_int ?d :: real) / of_int ?a\<rceil>)"
    using assms convert_Inr_fields(1)[OF conv] totalCycles_eq[of acc] by simp
  have "(of_int ?u :: real) / of_int ?a \<le> of_int ?d / of_int ?a"
    using assms by (simp add: divide_right_mono)
  also have "\<dots> \<le> of_int \<lceil>(of_int ?d :: real) / of_int ?a\<rceil>"
    by (rule le_of_int_ceiling)
  finally have "(of_int (?u div ?a) :: real) + of_int (?u mod ?a) / of_int ?a
      \<le> of_int \<lceil>(of_int ?d :: real) / of_int ?a\<rceil>"
    using assms(4) by (simp only: whole_plus_fraction)
  then show ?thesis using c t by simp
qed

theorem completedCycles_le_totalCycles_witness:
  "0 \<le> inUsed partial_account \<and> inUsed partial_account \<le> inDeposited partial_account
   \<and> 0 < inAmountPerCycle partial_account
   \<and> \<not> isl (convertDCAAccount partial_account (Num 1) ''LOGOS'' BUY lookup_ok)
   \<and> completedCycles (projr (convertDCAAccount partial_account (Num 1) ''LOGOS'' BUY lookup_ok))
       = Num (5 / 2)
   \<and> totalCycles (projr (convertDCAAccount partial_account (Num 1) ''LOGOS'' BUY lookup_ok))
       = Num 10
   \<and> jle (completedCycles (projr (convertDCAAccount partial_account (Num 1) ''LOGOS'' BUY lookup_ok)))
          (totalCycles (projr (convertDCAAccount partial_account (Num 1) ''LOGOS'' BUY lookup_ok)))"
proof -
  have f: "0 \<le> inUsed partial_account" "inUsed partial_account \<le> inDeposited partial_account"
    "0 < inAmountPerCycle partial_account"
    by (simp_all add: partial_account_def)
  have "\<not> isl (convertDCAAccount partial_account (Num 1) ''LOGOS'' BUY lookup_ok)"
    using partial_converts by (metis sum.disc(2))
  then show ?thesis
    using f completedCycles_le_totalCycles[OF partial_converts f]
    by (simp add: partial_account_def)
qed

subsection \<open>Price bounds\<close>

lemma jdiv_scaled:
  "jdiv (jdiv (Num a) scale) (jdiv (Num b) scale) = jdiv (Num a) (Num b)"
  by (simp add: scale_def signedInf_def finiteOf_def signedZero_def)

lemma bounded_converts:
  "convertDCAAccount bounded_account (Num 1) ''LOGOS'' BUY lookup_ok =
   Inr (projr (convertDCAAccount bounded_account (Num 1) ''LOGOS'' BUY lookup_ok))"
  by (simp add: convertDCAAccount_def bounded_account_def lookup_ok_def numbersBeforeMod_def
      numbersAfterMod_def fits53_def calc_usedInCurrentCycle_def signed_modulo_int_def)

lemma sell_converts:
  "convertDCAAccount sell_account (Num 1) ''LOGOS'' SELL lookup_ok =
   Inr (projr (convertDCAAccount sell_account (Num 1) ''LOGOS'' SELL lookup_ok))"
  by (simp add: convertDCAAccount_def sell_account_def lookup_ok_def numbersBeforeMod_def
      numbersAfterMod_def fits53_def calc_usedInCurrentCycle_def signed_modulo_int_def)

text \<open>
  C7. A position that the converter returns carries a price bound only for its
  own direction. For \<open>BUY\<close>, \<open>maxPrice\<close> is \<open>amountPerCycle / maxOutAmount\<close> when
  \<open>maxOutAmount\<close> is present and \<open>"No limit"\<close> otherwise, and \<open>minPrice\<close> is absent.
  For \<open>SELL\<close>, \<open>minPrice\<close> is \<open>minOutAmount / amountPerCycle\<close> when \<open>minOutAmount\<close> is
  present and absent otherwise, and \<open>maxPrice\<close> is absent.
\<close>

theorem price_bound_by_direction:
  assumes "convertDCAAccount acc pr tok ty tx = Inr p"
  shows "(ty = BUY \<longrightarrow>
            maxPrice p =
              (case maxOutAmount acc of
                 Some m \<Rightarrow> Some (Limit (jdiv (toNumber (inAmountPerCycle acc)) (toNumber m)))
               | None \<Rightarrow> Some NoLimit)
            \<and> minPrice p = None)
       \<and> (ty = SELL \<longrightarrow>
            minPrice p =
              (case minOutAmount acc of
                 Some m \<Rightarrow> Some (jdiv (toNumber m) (toNumber (inAmountPerCycle acc)))
               | None \<Rightarrow> None)
            \<and> maxPrice p = None)"
  using convert_Inr_fields(5,6)[OF assms]
  by (simp add: calc_maxPrice_def calc_minPrice_def calc_cycleAmount_def toNumber_def finiteOf_def signedZero_def jdiv_scaled
      split: option.splits)

theorem price_bound_by_direction_witness:
  "\<not> isl (convertDCAAccount bounded_account (Num 1) ''LOGOS'' BUY lookup_ok)
   \<and> maxPrice (projr (convertDCAAccount bounded_account (Num 1) ''LOGOS'' BUY lookup_ok))
       = Some (Limit (Num (1 / 4)))
   \<and> minPrice (projr (convertDCAAccount bounded_account (Num 1) ''LOGOS'' BUY lookup_ok)) = None
   \<and> \<not> isl (convertDCAAccount sell_account (Num 1) ''LOGOS'' SELL lookup_ok)
   \<and> minPrice (projr (convertDCAAccount sell_account (Num 1) ''LOGOS'' SELL lookup_ok))
       = Some (Num (1 / 10))
   \<and> maxPrice (projr (convertDCAAccount sell_account (Num 1) ''LOGOS'' SELL lookup_ok)) = None"
proof -
  have "\<not> isl (convertDCAAccount bounded_account (Num 1) ''LOGOS'' BUY lookup_ok)"
    using bounded_converts by (metis sum.disc(2))
  moreover have "\<not> isl (convertDCAAccount sell_account (Num 1) ''LOGOS'' SELL lookup_ok)"
    using sell_converts by (metis sum.disc(2))
  ultimately show ?thesis
    using price_bound_by_direction[OF bounded_converts] price_bound_by_direction[OF sell_converts]
    by (simp add: bounded_account_def sell_account_def toNumber_def finiteOf_def signedZero_def)
qed

subsection \<open>A zero cycle amount\<close>

lemma totalCycles_not_finite:
  assumes "inAmountPerCycle acc = 0"
  shows "\<not> isFinite (calc_totalCycles acc)"
  using assms by (simp add: calc_totalCycles_def toNumber_def finiteOf_def signedZero_def signedInf_def)

text \<open>
  C2, as the code has it. For an account with \<open>amountPerCycle = 0\<close> the converter
  returns no position. There is no guard and no \<open>MalformedAccount\<close> error: the
  cycle-count division is evaluated and is not finite, and once the signatures
  are fetched and the converted amounts fit 53 bits, what is thrown is the
  assertion of bn.js for \<open>inUsed.mod(inAmountPerCycle)\<close>.
\<close>

theorem zero_amountPerCycle_throws:
  assumes "inAmountPerCycle acc = 0"
  shows "isl (convertDCAAccount acc pr tok ty tx)
       \<and> (signaturesFetched tx \<and> list_all fits53 (numbersBeforeMod acc ty)
            \<longrightarrow> convertDCAAccount acc pr tok ty tx = Inl AssertionFailed)
       \<and> \<not> isFinite (calc_totalCycles acc)"
  using assms totalCycles_not_finite[OF assms] by (simp add: convertDCAAccount_def)

theorem zero_amountPerCycle_throws_witness:
  "inAmountPerCycle zero_cycle_account = 0
   \<and> signaturesFetched lookup_ok \<and> list_all fits53 (numbersBeforeMod zero_cycle_account BUY)
   \<and> isl (convertDCAAccount zero_cycle_account (Num 1) ''LOGOS'' BUY lookup_ok)
   \<and> convertDCAAccount zero_cycle_account (Num 1) ''LOGOS'' BUY lookup_ok = Inl AssertionFailed
   \<and> \<not> isFinite (calc_totalCycles zero_cycle_account)"
proof -
  have z: "inAmountPerCycle zero_cycle_account = 0"
    by (simp add: zero_cycle_account_def)
  have h: "signaturesFetched lookup_ok \<and> list_all fits53 (numbersBeforeMod zero_cycle_account BUY)"
    by (simp add: lookup_ok_def numbersBeforeMod_def zero_cycle_account_def fits53_def)
  show ?thesis
    using z h zero_amountPerCycle_throws[OF z, of "Num 1" "''LOGOS''" BUY lookup_ok] by simp
qed

text \<open>
  C2, as stated, fails: the conversion of an account with \<open>amountPerCycle = 0\<close>
  ends in the assertion of bn.js, after the cycle-count division has produced
  \<open>Infinity\<close>.
\<close>

theorem zero_amountPerCycle_divides:
  "convertDCAAccount zero_cycle_account (Num 1) ''LOGOS'' BUY lookup_ok = Inl AssertionFailed
   \<and> calc_totalCycles zero_cycle_account = PInf"
  by (simp add: convertDCAAccount_def zero_cycle_account_def lookup_ok_def numbersBeforeMod_def
      fits53_def calc_totalCycles_def toNumber_def finiteOf_def signedZero_def signedInf_def)

subsection \<open>Active and completed orders\<close>

lemma remainingCycles_pos:
  assumes "0 \<le> inUsed acc" and "inUsed acc < inDeposited acc" and "0 < inAmountPerCycle acc"
  shows "jgt (calc_remainingCycles acc) (Num 0)"
proof -
  let ?a = "inAmountPerCycle acc" and ?u = "inUsed acc" and ?d = "inDeposited acc"
  have "(of_int ?u :: real) / of_int ?a < of_int ?d / of_int ?a"
    using assms by (simp add: divide_strict_right_mono)
  also have "\<dots> \<le> of_int \<lceil>(of_int ?d :: real) / of_int ?a\<rceil>"
    by (rule le_of_int_ceiling)
  finally have "(of_int (?u div ?a) :: real) + of_int (?u mod ?a) / of_int ?a
      < of_int \<lceil>(of_int ?d :: real) / of_int ?a\<rceil>"
    using assms(3) by (simp only: whole_plus_fraction)
  then show ?thesis
    using assms completedFullCycles_eq[of ?a acc ?u] currentCycleUsed_eq[of acc] totalCycles_eq[of acc]
    by (simp add: calc_remainingCycles_def jsub_Num)
qed

lemma tokenSummary_activeOnly:
  "tokenSummary \<lparr> buys = filter isOrderActive (buys accs),
                   sells = filter isOrderActive (sells accs) \<rparr> p = tokenSummary accs p"
  by (simp add: tokenSummary_def)

lemma tokenNumbers_activeOnly:
  "tokenNumbers \<lparr> buys = filter isOrderActive (buys accs),
                   sells = filter isOrderActive (sells accs) \<rparr> = tokenNumbers accs"
  by (simp add: tokenNumbers_def)

lemma summaryNumbers_activeOnly:
  assumes "list_all fits53 (summaryNumbers abt)"
  shows "list_all fits53 (summaryNumbers (activeOnly abt))"
  using assms
  by (auto simp: summaryNumbers_def activeOnly_def tokenNumbers_activeOnly list_all_iff)

lemma summary_activeOnly:
  assumes "calculateSummaryFromRawAccounts abt prices = Inr summary"
  shows "calculateSummaryFromRawAccounts (activeOnly abt) prices = Inr summary"
proof -
  have ok: "list_all fits53 (summaryNumbers abt)"
    using assms by (simp add: calculateSummaryFromRawAccounts_def split: if_splits)
  have "tokenSummary (LOGOS (activeOnly abt)) p = tokenSummary (LOGOS abt) p"
    and "tokenSummary (CHAOS (activeOnly abt)) p = tokenSummary (CHAOS abt) p" for p
    by (simp_all add: activeOnly_def tokenSummary_activeOnly)
  then show ?thesis
    using assms ok summaryNumbers_activeOnly[OF ok]
    by (simp add: calculateSummaryFromRawAccounts_def)
qed

lemma sample_numbers_fit: "list_all fits53 (summaryNumbers sample_accounts)"
  by (simp add: summaryNumbers_def tokenNumbers_def buyNumbers_def sellNumber_def
      sample_accounts_def isOrderActive_def partial_account_def completed_account_def
      sell_account_def chaos_buy_account_def fits53_def)

lemma sample_summary:
  "calculateSummaryFromRawAccounts sample_accounts prices =
   Inr (projr (calculateSummaryFromRawAccounts sample_accounts prices))"
  using sample_numbers_fit by (simp add: calculateSummaryFromRawAccounts_def)

text \<open>
  C4, as the code has it. For an account with \<open>0 \<le> used \<le> deposited\<close> and
  \<open>amountPerCycle > 0\<close>, the position that the converter returns has
  \<open>isActive = false\<close> exactly when \<open>used = deposited\<close>. A summary that the
  aggregator returns is the summary of the accounts with \<open>used \<noteq> deposited\<close>
  alone: the others add to no count and to no volume.
\<close>

theorem inactive_iff_used_eq_deposited:
  "(convertDCAAccount acc pr tok ty tx = Inr p
      \<and> 0 \<le> inUsed acc \<and> inUsed acc \<le> inDeposited acc \<and> 0 < inAmountPerCycle acc
      \<longrightarrow> (isActive p = False \<longleftrightarrow> inUsed acc = inDeposited acc))
   \<and> (calculateSummaryFromRawAccounts abt prices = Inr summary
      \<longrightarrow> calculateSummaryFromRawAccounts (activeOnly abt) prices = Inr summary)"
proof (intro conjI impI)
  assume h: "convertDCAAccount acc pr tok ty tx = Inr p
      \<and> 0 \<le> inUsed acc \<and> inUsed acc \<le> inDeposited acc \<and> 0 < inAmountPerCycle acc"
  then have "isActive p = (jgt (calc_remainingCycles acc) (Num 0) \<and> inUsed acc \<noteq> inDeposited acc)"
    using convert_Inr_fields(4) by blast
  then show "isActive p = False \<longleftrightarrow> inUsed acc = inDeposited acc"
    using h remainingCycles_pos[of acc] by (cases "inUsed acc = inDeposited acc") auto
next
  assume "calculateSummaryFromRawAccounts abt prices = Inr summary"
  then show "calculateSummaryFromRawAccounts (activeOnly abt) prices = Inr summary"
    by (rule summary_activeOnly)
qed

theorem inactive_iff_used_eq_deposited_witness:
  "\<not> isl (convertDCAAccount partial_account (Num 1) ''LOGOS'' BUY lookup_ok)
   \<and> 0 \<le> inUsed partial_account \<and> inUsed partial_account \<le> inDeposited partial_account
   \<and> 0 < inAmountPerCycle partial_account
   \<and> inUsed partial_account \<noteq> inDeposited partial_account
   \<and> isActive (projr (convertDCAAccount partial_account (Num 1) ''LOGOS'' BUY lookup_ok))
   \<and> \<not> isl (calculateSummaryFromRawAccounts sample_accounts sample_prices)
   \<and> calculateSummaryFromRawAccounts (activeOnly sample_accounts) sample_prices
       = calculateSummaryFromRawAccounts sample_accounts sample_prices
   \<and> buys (LOGOS (activeOnly sample_accounts)) = [partial_account]"
proof -
  have f: "0 \<le> inUsed partial_account \<and> inUsed partial_account \<le> inDeposited partial_account
      \<and> 0 < inAmountPerCycle partial_account \<and> inUsed partial_account \<noteq> inDeposited partial_account"
    by (simp add: partial_account_def)
  have c: "\<not> isl (convertDCAAccount partial_account (Num 1) ''LOGOS'' BUY lookup_ok)"
    using partial_converts by (metis sum.disc(2))
  have s: "\<not> isl (calculateSummaryFromRawAccounts sample_accounts sample_prices)"
    using sample_summary by (metis sum.disc(2))
  have b: "buys (LOGOS (activeOnly sample_accounts)) = [partial_account]"
    by (simp add: activeOnly_def sample_accounts_def isOrderActive_def partial_account_def
        completed_account_def)
  show ?thesis
    using f c s b partial_converts sample_summary[of sample_prices]
      inactive_iff_used_eq_deposited[of partial_account "Num 1" "''LOGOS''" BUY lookup_ok
        "projr (convertDCAAccount partial_account (Num 1) ''LOGOS'' BUY lookup_ok)"
        sample_accounts sample_prices
        "projr (calculateSummaryFromRawAccounts sample_accounts sample_prices)"]
    by simp
qed

text \<open>
  C4, as stated for every raw account, fails: \<open>isActive\<close> also requires remaining
  cycles. An account with \<open>used = 20\<close> over \<open>deposited = 10\<close> converts to a position
  that is not active although \<open>used \<noteq> deposited\<close>.
\<close>

theorem overused_not_active:
  "\<not> isl (convertDCAAccount overused_account (Num 1) ''LOGOS'' BUY lookup_ok)
   \<and> isActive (projr (convertDCAAccount overused_account (Num 1) ''LOGOS'' BUY lookup_ok)) = False
   \<and> inUsed overused_account \<noteq> inDeposited overused_account"
  by (simp add: convertDCAAccount_def overused_account_def lookup_ok_def numbersBeforeMod_def
      numbersAfterMod_def fits53_def calc_usedInCurrentCycle_def signed_modulo_int_def
      calc_remainingCycles_def calc_totalCycles_def calc_completedFullCycles_def
      calc_currentCycleUsed_def toNumber_def finiteOf_def signedZero_def jsub_def truncQuot_def)

section \<open>Properties of the aggregator\<close>

subsection \<open>A price of zero\<close>

lemma jdiv_zero_not_finite: "isZero p \<Longrightarrow> \<not> isFinite (jdiv x p)"
  by (cases x; cases p) (simp_all add: signedInf_def)

lemma jadd_not_finite: "\<not> isFinite x \<or> \<not> isFinite y \<Longrightarrow> \<not> isFinite (jadd x y)"
  by (cases x; cases y) simp_all

lemma foldl_not_finite:
  assumes "\<And>a. \<not> isFinite (f a)" and "\<not> isFinite s \<or> xs \<noteq> []"
  shows "\<not> isFinite (foldl (\<lambda>sum acc. jadd sum (f acc)) s xs)"
  using assms(2)
proof (induction xs arbitrary: s)
  case Nil
  then show ?case by simp
next
  case (Cons a xs)
  have "\<not> isFinite (jadd s (f a))"
    using assms(1) jadd_not_finite by blast
  then show ?case using Cons.IH[of "jadd s (f a)"] by simp
qed

lemma round_not_finite: "\<not> isFinite x \<Longrightarrow> \<not> isFinite (Math_round x)"
  by (cases x) simp_all

lemma buyVolume_not_finite:
  assumes "isZero p" and "filter isOrderActive (buys accs) \<noteq> []"
  shows "\<not> isFinite (buyVolume (tokenSummary accs p))"
  using assms foldl_not_finite[of "\<lambda>acc. jdiv (remainingUSDC acc) p"
      "Num 0" "filter isOrderActive (buys accs)"]
  by (simp add: tokenSummary_def round_not_finite jdiv_zero_not_finite)

text \<open>
  C3, as the code has it. The aggregator has no \<open>PriceUnavailable\<close> error and does
  not look at the price before dividing: whenever the amounts it converts fit 53
  bits it returns a summary, and for a token whose price is \<open>0\<close> (of either sign)
  and that has an active BUY account the \<open>buyVolume\<close> of that summary is not
  finite.
\<close>

theorem zero_price_buyVolume_not_finite:
  assumes "list_all fits53 (summaryNumbers abt)"
  shows "\<not> isl (calculateSummaryFromRawAccounts abt prices)
       \<and> (isZero (price_LOGOS prices) \<and> filter isOrderActive (buys (LOGOS abt)) \<noteq> []
            \<longrightarrow> \<not> isFinite (buyVolume
                    (the (projr (calculateSummaryFromRawAccounts abt prices) ''LOGOS''))))
       \<and> (isZero (price_CHAOS prices) \<and> filter isOrderActive (buys (CHAOS abt)) \<noteq> []
            \<longrightarrow> \<not> isFinite (buyVolume
                    (the (projr (calculateSummaryFromRawAccounts abt prices) ''CHAOS''))))"
  using assms
    buyVolume_not_finite[of "price_LOGOS prices" "LOGOS abt"]
    buyVolume_not_finite[of "price_CHAOS prices" "CHAOS abt"]
  by (simp add: calculateSummaryFromRawAccounts_def)

theorem zero_price_buyVolume_not_finite_witness:
  "list_all fits53 (summaryNumbers sample_accounts)
   \<and> price_LOGOS zero_prices = Num 0 \<and> isZero (price_LOGOS zero_prices)
   \<and> filter isOrderActive (buys (LOGOS sample_accounts)) \<noteq> []
   \<and> price_CHAOS zero_prices = Num 0 \<and> isZero (price_CHAOS zero_prices)
   \<and> filter isOrderActive (buys (CHAOS sample_accounts)) \<noteq> []
   \<and> \<not> isl (calculateSummaryFromRawAccounts sample_accounts zero_prices)
   \<and> \<not> isFinite (buyVolume
          (the (projr (calculateSummaryFromRawAccounts sample_accounts zero_prices) ''LOGOS'')))
   \<and> \<not> isFinite (buyVolume
          (the (projr (calculateSummaryFromRawAccounts sample_accounts zero_prices) ''CHAOS'')))"
proof -
  have p: "price_LOGOS zero_prices = Num 0" "price_CHAOS zero_prices = Num 0"
    by (simp_all add: zero_prices_def)
  have h: "isZero (price_LOGOS zero_prices) \<and> filter isOrderActive (buys (LOGOS sample_accounts)) \<noteq> []"
    "isZero (price_CHAOS zero_prices) \<and> filter isOrderActive (buys (CHAOS sample_accounts)) \<noteq> []"
    by (simp_all add: zero_prices_def sample_accounts_def isOrderActive_def partial_account_def
        chaos_buy_account_def)
  show ?thesis
    using p h sample_numbers_fit
      zero_price_buyVolume_not_finite[OF sample_numbers_fit, of zero_prices]
    by blast
qed

text \<open>
  C3, as stated, fails: with both prices \<open>0\<close> and an active BUY account for LOGOS,
  the aggregator returns a summary whose \<open>buyVolume\<close> is \<open>Infinity\<close>.
\<close>

theorem zero_price_buyVolume_infinite:
  "\<not> isl (calculateSummaryFromRawAccounts sample_accounts zero_prices)
   \<and> buyVolume (the (projr (calculateSummaryFromRawAccounts sample_accounts zero_prices) ''LOGOS''))
       = PInf"
proof -
  have "buyVolume (tokenSummary (LOGOS sample_accounts) (Num 0)) = PInf"
    by (simp add: tokenSummary_def sample_accounts_def isOrderActive_def partial_account_def
        completed_account_def remainingUSDC_def toNumber_def finiteOf_def signedZero_def scale_def jsub_def signedInf_def)
  then show ?thesis
    using sample_numbers_fit
    by (simp add: calculateSummaryFromRawAccounts_def zero_prices_def)
qed

subsection \<open>Volumes are not negative\<close>

lemma nonneg_jadd: "jle (Num 0) x \<Longrightarrow> jle (Num 0) y \<Longrightarrow> jle (Num 0) (jadd x y)"
  by (cases x; cases y) simp_all

lemma nonneg_foldl:
  assumes "\<And>a. a \<in> set xs \<Longrightarrow> jle (Num 0) (f a)" and "jle (Num 0) s"
  shows "jle (Num 0) (foldl (\<lambda>sum acc. jadd sum (f acc)) s xs)"
  using assms
proof (induction xs arbitrary: s)
  case Nil
  then show ?case by simp
next
  case (Cons a xs)
  have "jle (Num 0) (jadd s (f a))"
    using Cons.prems by (simp add: nonneg_jadd)
  then show ?case using Cons.IH[of "jadd s (f a)"] Cons.prems(1) by simp
qed

lemma nonneg_round: "jle (Num 0) x \<Longrightarrow> jle (Num 0) (Math_round x)"
proof (cases x)
  case (Num a)
  assume "jle (Num 0) x"
  then have a: "0 \<le> a" using Num by simp
  then have "0 \<le> a + 1 / 2" by simp
  then have "0 \<le> \<lfloor>a + 1 / 2\<rfloor>" by (simp only: zero_le_floor)
  then show ?thesis using Num Math_round_nonneg[OF a] by simp
qed simp_all

lemma remainingUSDC_pos:
  assumes "wellFormed acc" and "isOrderActive acc"
  shows "\<exists>r. remainingUSDC acc = Num r \<and> 0 < r"
proof -
  let ?a = "inAmountPerCycle acc" and ?u = "inUsed acc" and ?d = "inDeposited acc"
  let ?c = "\<lceil>(of_int ?d :: real) / of_int ?a\<rceil>" and ?f = "\<lfloor>(of_int ?u :: real) / of_int ?a\<rfloor>"
  have a: "0 < ?a" and u: "0 \<le> ?u" and lt: "?u < ?d"
    using assms by (simp_all add: wellFormed_def isOrderActive_def)
  have "(of_int ?f :: real) \<le> of_int ?u / of_int ?a"
    by (rule of_int_floor_le)
  also have "\<dots> < of_int ?d / of_int ?a"
    using a lt by (simp add: divide_strict_right_mono)
  also have "\<dots> \<le> of_int ?c"
    by (rule le_of_int_ceiling)
  finally have diff: "0 < (of_int ?c :: real) - of_int ?f"
    by simp
  then have pos: "0 < ((of_int ?c :: real) - of_int ?f) * (of_int ?a / 1000000)"
    using a by simp
  have qd: "0 \<le> (of_int ?d :: real) / of_int ?a"
    using a u lt by simp
  have "jdiv (toNumber ?d) (toNumber ?a) = Num (of_int ?d / of_int ?a)"
    using a u lt by (simp add: toNumber_def jdiv_nonneg finiteOf_positive_sign)
  then have total: "Math_ceil (jdiv (toNumber ?d) (toNumber ?a)) = Num (of_int ?c)"
    using Math_ceil_nonneg[OF qd] by simp
  have completed: "Math_floor (jdiv (toNumber ?u) (toNumber ?a)) = Num (of_int ?f)"
    using a u by (simp add: toNumber_def jdiv_nonneg finiteOf_positive_sign)
  have cycle: "jdiv (toNumber ?a) scale = Num (of_int ?a / 1000000)"
    using a by (simp add: toNumber_def scale_def jdiv_nonneg finiteOf_positive_sign)
  have "jmul (Num (of_int ?c - of_int ?f)) (Num (of_int ?a / 1000000)) =
      Num (((of_int ?c :: real) - of_int ?f) * (of_int ?a / 1000000))"
    using diff a by (intro jmul_nonneg) simp_all
  then have "remainingUSDC acc = Num (((of_int ?c :: real) - of_int ?f) * (of_int ?a / 1000000))"
    by (simp add: remainingUSDC_def total completed cycle jsub_Num)
  then show ?thesis
    using pos by blast
qed

lemma nonneg_buy_term:
  assumes "wellFormed acc" and "isOrderActive acc" and "0 \<le> p"
  shows "jle (Num 0) (jdiv (remainingUSDC acc) (Num p))"
    and "jle (Num 0) (remainingUSDC acc)"
  using remainingUSDC_pos[OF assms(1,2)] assms(3)
  by (auto simp: signedInf_def finiteOf_positive_sign)

lemma nonneg_sell_term:
  assumes "wellFormed acc" and "0 \<le> p"
  shows "jle (Num 0) (sellAmount acc)"
    and "jle (Num 0) (jmul (sellAmount acc) (Num p))"
  using assms by (simp_all add: sellAmount_def toNumber_def finiteOf_def signedZero_def scale_def wellFormed_def)

lemma tokenSummary_nonneg:
  assumes wf: "\<And>acc. acc \<in> set (buys accs) \<union> set (sells accs) \<Longrightarrow> wellFormed acc" and p: "0 \<le> p"
  shows "jle (Num 0) (buyVolume (tokenSummary accs (Num p)))"
    and "jle (Num 0) (sellVolume (tokenSummary accs (Num p)))"
    and "jle (Num 0) (buyVolumeUSDC (tokenSummary accs (Num p)))"
    and "jle (Num 0) (sellVolumeUSDC (tokenSummary accs (Num p)))"
proof -
  have b: "wellFormed acc \<and> isOrderActive acc"
    if "acc \<in> set (filter isOrderActive (buys accs))" for acc
    using that wf by simp
  have s: "wellFormed acc" if "acc \<in> set (filter isOrderActive (sells accs))" for acc
    using that wf by simp
  have z: "jle (Num 0) (Num 0)" by simp
  have "jle (Num 0) (foldl (\<lambda>sum acc. jadd sum (jdiv (remainingUSDC acc) (Num p))) (Num 0)
                           (filter isOrderActive (buys accs)))"
    using b p z by (intro nonneg_foldl nonneg_buy_term(1)) auto
  then show "jle (Num 0) (buyVolume (tokenSummary accs (Num p)))"
    by (simp add: tokenSummary_def nonneg_round)
  show "jle (Num 0) (sellVolume (tokenSummary accs (Num p)))"
    unfolding tokenSummary_def using s p z
    by (simp, intro nonneg_foldl nonneg_sell_term(1)) auto
  have "jle (Num 0) (foldl (\<lambda>sum acc. jadd sum (remainingUSDC acc)) (Num 0)
                           (filter isOrderActive (buys accs)))"
    using b p z by (intro nonneg_foldl nonneg_buy_term(2)) auto
  then show "jle (Num 0) (buyVolumeUSDC (tokenSummary accs (Num p)))"
    by (simp add: tokenSummary_def nonneg_round)
  have "jle (Num 0) (foldl (\<lambda>sum acc. jadd sum (jmul (sellAmount acc) (Num p))) (Num 0)
                           (filter isOrderActive (sells accs)))"
    using s p z by (intro nonneg_foldl nonneg_sell_term(2)) auto
  then show "jle (Num 0) (sellVolumeUSDC (tokenSummary accs (Num p)))"
    by (simp add: tokenSummary_def nonneg_round)
qed

text \<open>
  C6, as the code has it. When every categorised account satisfies
  \<open>0 \<le> withdrawn \<le> deposited\<close>, \<open>0 \<le> used \<le> deposited\<close> and \<open>amountPerCycle > 0\<close> and
  both prices are finite and either positive or \<open>+0\<close>, the four volumes of every
  token summary that the aggregator returns are not negative (\<open>0 <= v\<close> holds of
  each; \<open>Infinity\<close> is one such value).
\<close>

theorem volumes_nonnegative:
  assumes "calculateSummaryFromRawAccounts abt prices = Inr summary"
    and wf: "\<forall>acc \<in> set (buys (LOGOS abt)) \<union> set (sells (LOGOS abt))
                   \<union> set (buys (CHAOS abt)) \<union> set (sells (CHAOS abt)). wellFormed acc"
    and "price_LOGOS prices = Num pl" and "0 \<le> pl"
    and "price_CHAOS prices = Num pc" and "0 \<le> pc"
    and "summary tok = Some s"
  shows "jle (Num 0) (buyVolume s) \<and> jle (Num 0) (sellVolume s)
       \<and> jle (Num 0) (buyVolumeUSDC s) \<and> jle (Num 0) (sellVolumeUSDC s)"
proof -
  have "s = tokenSummary (LOGOS abt) (Num pl) \<or> s = tokenSummary (CHAOS abt) (Num pc)"
    using assms(1,3,5,7)
    by (auto simp: calculateSummaryFromRawAccounts_def split: if_splits)
  moreover have "\<And>acc. acc \<in> set (buys (LOGOS abt)) \<union> set (sells (LOGOS abt)) \<Longrightarrow> wellFormed acc"
    and "\<And>acc. acc \<in> set (buys (CHAOS abt)) \<union> set (sells (CHAOS abt)) \<Longrightarrow> wellFormed acc"
    using wf by auto
  ultimately show ?thesis
    using tokenSummary_nonneg[of "LOGOS abt" pl] tokenSummary_nonneg[of "CHAOS abt" pc] assms(4,6)
    by blast
qed

lemma sample_wellFormed:
  "\<forall>acc \<in> set (buys (LOGOS sample_accounts)) \<union> set (sells (LOGOS sample_accounts))
          \<union> set (buys (CHAOS sample_accounts)) \<union> set (sells (CHAOS sample_accounts)).
     wellFormed acc"
  by (simp add: sample_accounts_def wellFormed_def partial_account_def completed_account_def
      sell_account_def chaos_buy_account_def)

lemma sample_LOGOS_summary:
  "projr (calculateSummaryFromRawAccounts sample_accounts sample_prices) ''LOGOS'' =
   Some (tokenSummary (LOGOS sample_accounts) (Num (1 / 2)))"
  using sample_numbers_fit
  by (simp add: calculateSummaryFromRawAccounts_def sample_prices_def)

theorem volumes_nonnegative_witness:
  "\<not> isl (calculateSummaryFromRawAccounts sample_accounts sample_prices)
   \<and> list_all wellFormed
         (buys (LOGOS sample_accounts) @ sells (LOGOS sample_accounts)
          @ buys (CHAOS sample_accounts) @ sells (CHAOS sample_accounts))
   \<and> price_LOGOS sample_prices = Num (1 / 2) \<and> price_CHAOS sample_prices = Num 2
   \<and> jle (Num 0) (buyVolume (tokenSummary (LOGOS sample_accounts) (Num (1 / 2))))
   \<and> jle (Num 0) (sellVolume (tokenSummary (LOGOS sample_accounts) (Num (1 / 2))))
   \<and> jle (Num 0) (buyVolumeUSDC (tokenSummary (LOGOS sample_accounts) (Num (1 / 2))))
   \<and> jle (Num 0) (sellVolumeUSDC (tokenSummary (LOGOS sample_accounts) (Num (1 / 2))))"
proof -
  have s: "\<not> isl (calculateSummaryFromRawAccounts sample_accounts sample_prices)"
    using sample_summary by (metis sum.disc(2))
  have p: "price_LOGOS sample_prices = Num (1 / 2)" "price_CHAOS sample_prices = Num 2"
    by (simp_all add: sample_prices_def)
  have "jle (Num 0) (buyVolume (tokenSummary (LOGOS sample_accounts) (Num (1 / 2))))
      \<and> jle (Num 0) (sellVolume (tokenSummary (LOGOS sample_accounts) (Num (1 / 2))))
      \<and> jle (Num 0) (buyVolumeUSDC (tokenSummary (LOGOS sample_accounts) (Num (1 / 2))))
      \<and> jle (Num 0) (sellVolumeUSDC (tokenSummary (LOGOS sample_accounts) (Num (1 / 2))))"
    by (rule volumes_nonnegative[OF sample_summary sample_wellFormed p(1) _ p(2) _
          sample_LOGOS_summary]) simp_all
  then show ?thesis
    using s p sample_wellFormed by (simp add: list_all_iff Ball_def)
qed

text \<open>
  C6, as stated for every non-negative price, fails at the two prices that satisfy
  \<open>0 <= p\<close> and are neither positive and finite nor \<open>+0\<close>. At a price of \<open>-0\<close> an
  active well-formed BUY account makes \<open>buyVolume\<close> \<open>-Infinity\<close>; at a price of
  \<open>Infinity\<close> an active well-formed SELL account whose deposit is withdrawn makes
  \<open>sellVolumeUSDC\<close> \<open>NaN\<close>.
\<close>

theorem volumes_negative_or_nan:
  "list_all wellFormed
     (buys (LOGOS sample_accounts) @ sells (LOGOS sample_accounts)
      @ buys (CHAOS sample_accounts) @ sells (CHAOS sample_accounts))
   \<and> jle (Num 0) (price_LOGOS negative_zero_prices)
   \<and> jle (Num 0) (price_CHAOS negative_zero_prices)
   \<and> \<not> isl (calculateSummaryFromRawAccounts sample_accounts negative_zero_prices)
   \<and> buyVolume (the (projr (calculateSummaryFromRawAccounts sample_accounts
                               negative_zero_prices) ''LOGOS'')) = NInf
   \<and> \<not> jle (Num 0) (buyVolume (the (projr (calculateSummaryFromRawAccounts sample_accounts
                                               negative_zero_prices) ''LOGOS'')))
   \<and> list_all wellFormed
        (buys (LOGOS drained_accounts) @ sells (LOGOS drained_accounts)
         @ buys (CHAOS drained_accounts) @ sells (CHAOS drained_accounts))
   \<and> jle (Num 0) (price_LOGOS infinite_prices)
   \<and> jle (Num 0) (price_CHAOS infinite_prices)
   \<and> \<not> isl (calculateSummaryFromRawAccounts drained_accounts infinite_prices)
   \<and> sellVolumeUSDC (the (projr (calculateSummaryFromRawAccounts drained_accounts
                                    infinite_prices) ''LOGOS'')) = NaN
   \<and> \<not> jle (Num 0) (sellVolumeUSDC (the (projr (calculateSummaryFromRawAccounts drained_accounts
                                                    infinite_prices) ''LOGOS'')))"
proof -
  have w: "list_all wellFormed
     (buys (LOGOS sample_accounts) @ sells (LOGOS sample_accounts)
      @ buys (CHAOS sample_accounts) @ sells (CHAOS sample_accounts))"
    using sample_wellFormed by (simp add: list_all_iff Ball_def)
  have b: "buyVolume (tokenSummary (LOGOS sample_accounts) NegZero) = NInf"
    by (simp add: tokenSummary_def sample_accounts_def isOrderActive_def partial_account_def
        completed_account_def remainingUSDC_def toNumber_def scale_def jsub_def signedInf_def
        finiteOf_def signedZero_def)
  have n: "calculateSummaryFromRawAccounts sample_accounts negative_zero_prices =
      Inr [''LOGOS'' \<mapsto> tokenSummary (LOGOS sample_accounts) NegZero,
           ''CHAOS'' \<mapsto> tokenSummary (CHAOS sample_accounts) NegZero]"
    using sample_numbers_fit
    by (simp add: calculateSummaryFromRawAccounts_def negative_zero_prices_def)
  have dw: "list_all wellFormed
        (buys (LOGOS drained_accounts) @ sells (LOGOS drained_accounts)
         @ buys (CHAOS drained_accounts) @ sells (CHAOS drained_accounts))"
    by (simp add: drained_accounts_def drained_sell_account_def wellFormed_def)
  have df: "list_all fits53 (summaryNumbers drained_accounts)"
    by (simp add: summaryNumbers_def tokenNumbers_def sellNumber_def drained_accounts_def
        drained_sell_account_def isOrderActive_def fits53_def)
  have s: "sellVolumeUSDC (tokenSummary (LOGOS drained_accounts) PInf) = NaN"
    by (simp add: tokenSummary_def drained_accounts_def drained_sell_account_def
        isOrderActive_def sellAmount_def toNumber_def scale_def finiteOf_def signedZero_def)
  have i: "calculateSummaryFromRawAccounts drained_accounts infinite_prices =
      Inr [''LOGOS'' \<mapsto> tokenSummary (LOGOS drained_accounts) PInf,
           ''CHAOS'' \<mapsto> tokenSummary (CHAOS drained_accounts) PInf]"
    using df by (simp add: calculateSummaryFromRawAccounts_def infinite_prices_def)
  have pn: "jle (Num 0) (price_LOGOS negative_zero_prices)"
    "jle (Num 0) (price_CHAOS negative_zero_prices)"
    by (simp_all add: negative_zero_prices_def)
  have pi: "jle (Num 0) (price_LOGOS infinite_prices)"
    "jle (Num 0) (price_CHAOS infinite_prices)"
    by (simp_all add: infinite_prices_def)
  show ?thesis
    using w dw b s pn pi by (simp add: n i)
qed

section \<open>Properties of the retry helper\<close>

lemma withRetry_loop_bounded:
  assumes "withRetry_loop operation maxRetries i lastError = (r, n)"
    and "i \<le> maxRetries"
    and "\<forall>j<i. isl (operation j)"
    and "lastError = (if i = 0 then ThrownUndefined else projl (operation (i - 1)))"
  shows "n \<le> maxRetries
       \<and> (\<forall>v. r = Inr v \<longrightarrow> 0 < n \<and> operation (n - 1) = Inr v \<and> (\<forall>j<n - 1. isl (operation j)))
       \<and> (\<forall>e. r = Inl e \<longrightarrow> n = maxRetries \<and> (\<forall>j<maxRetries. isl (operation j))
              \<and> e = (if maxRetries = 0 then ThrownUndefined
                     else projl (operation (maxRetries - 1))))"
  using assms
proof (induction operation maxRetries i lastError rule: withRetry_loop.induct)
  case (1 operation maxRetries i lastError)
  show ?case
  proof (cases "i < maxRetries")
    case False
    then have "i = maxRetries" using "1.prems"(2) by simp
    then show ?thesis using "1.prems" by auto
  next
    case True
    show ?thesis
    proof (cases "operation i")
      case (Inr v)
      then have "r = Inr v" "n = Suc i"
        using True "1.prems"(1) by simp_all
      then show ?thesis using True Inr "1.prems"(3) by simp
    next
      case (Inl e)
      have step: "withRetry_loop operation maxRetries (Suc i) e = (r, n)"
        using True Inl "1.prems"(1) by simp
      have prev: "\<forall>j<Suc i. isl (operation j)"
        using Inl "1.prems"(3) by (auto simp: less_Suc_eq)
      have last: "e = (if Suc i = 0 then ThrownUndefined else projl (operation (Suc i - 1)))"
        using Inl by simp
      show ?thesis
        using "1.IH"[OF True Inl step _ prev last] True by simp
    qed
  qed
qed

text \<open>
  C10. \<open>withRetry\<close> invokes its operation at most \<open>maxRetries\<close> times, \<open>3\<close> by
  default. When it returns a value, that is the result of its last invocation and
  every invocation before threw; when it throws, it has made \<open>maxRetries\<close>
  invocations, all of them threw, and the error is that of the last one. It
  always ends.
\<close>

theorem withRetry_bounded:
  assumes "withRetry operation maxRetries = (r, n)"
  shows "n \<le> maxRetries
       \<and> (\<forall>v. r = Inr v \<longrightarrow> 0 < n \<and> operation (n - 1) = Inr v \<and> (\<forall>j<n - 1. isl (operation j)))
       \<and> (\<forall>e. r = Inl e \<longrightarrow> n = maxRetries \<and> (\<forall>j<maxRetries. isl (operation j))
              \<and> e = (if maxRetries = 0 then ThrownUndefined
                     else projl (operation (maxRetries - 1))))
       \<and> snd (withRetry_default operation) \<le> 3"
proof -
  have "snd (withRetry_default operation) \<le> 3"
    using withRetry_loop_bounded[of operation 3 0 ThrownUndefined
        "fst (withRetry operation 3)" "snd (withRetry operation 3)"]
    by (simp add: withRetry_default_def withRetry_def)
  then show ?thesis
    using withRetry_loop_bounded[of operation maxRetries 0 ThrownUndefined r n] assms
    by (simp add: withRetry_def)
qed

lemma flaky_run: "withRetry flaky_operation 3 = (Inr 7, 3)"
  by (simp add: withRetry_def flaky_operation_def numeral_3_eq_3)

lemma failing_run: "withRetry failing_operation 3 = (Inl NoAccountsReturned, 3)"
  by (simp add: withRetry_def failing_operation_def numeral_3_eq_3)

theorem withRetry_bounded_witness:
  "withRetry flaky_operation 3 = (Inr 7, 3)
   \<and> flaky_operation 2 = Inr 7 \<and> isl (flaky_operation 0) \<and> isl (flaky_operation 1)
   \<and> withRetry failing_operation 3 = (Inl NoAccountsReturned, 3)
   \<and> failing_operation 2 = Inl NoAccountsReturned
   \<and> isl (failing_operation 0) \<and> isl (failing_operation 1)
   \<and> snd (withRetry_default flaky_operation) \<le> 3"
proof -
  have a: "flaky_operation (3 - 1) = Inr 7 \<and> (\<forall>j<3 - 1. isl (flaky_operation j))
      \<and> snd (withRetry_default flaky_operation) \<le> 3"
    using withRetry_bounded[OF flaky_run] by simp
  have b: "(\<forall>j<3. isl (failing_operation j))
      \<and> NoAccountsReturned = projl (failing_operation (3 - 1))"
    using withRetry_bounded[OF failing_run] by simp
  have "flaky_operation 2 = Inr 7" "isl (flaky_operation 0)" "isl (flaky_operation 1)"
    using a by simp_all
  moreover have "failing_operation 2 = Inl NoAccountsReturned"
    "isl (failing_operation 0)" "isl (failing_operation 1)"
    using b by (simp_all add: failing_operation_def)
  ultimately show ?thesis
    using flaky_run failing_run a by simp
qed

section \<open>Properties of a poll\<close>

subsection \<open>Untracked accounts\<close>

lemma accountsByToken_tracked:
  "accountsByToken (filter tracked xs) = accountsByToken xs"
proof -
  have "(tracked acc \<and> outputMint acc = LOGOS_MINT) = (outputMint acc = LOGOS_MINT)"
    and "(tracked acc \<and> inputMint acc = LOGOS_MINT) = (inputMint acc = LOGOS_MINT)"
    and "(tracked acc \<and> outputMint acc = CHAOS_MINT) = (outputMint acc = CHAOS_MINT)"
    and "(tracked acc \<and> inputMint acc = CHAOS_MINT) = (inputMint acc = CHAOS_MINT)" for acc
    by (auto simp: tracked_def)
  then show ?thesis
    by (simp add: accountsByToken_def conj_commute)
qed

lemma processAccounts_summary_keys:
  assumes "processAccounts w xs = Inr r"
  shows "dom (result_summary r) = {''LOGOS'', ''CHAOS''}"
  using assms
  by (auto simp: processAccounts_def calculateSummaryFromRawAccounts_def
      split: if_splits sum.splits)

lemma processAccounts_tracked:
  "processAccounts w (filter tracked xs) = processAccounts w xs"
  unfolding processAccounts_def accountsByToken_tracked by (rule refl)

lemma getDCAAccounts_processed:
  assumes "getDCAAccounts w = Inr r"
  shows "processAccounts w (projr (fst (withRetry_default (fetchAccounts w)))) = Inr r"
  using assms by (auto simp: getDCAAccounts_def split: if_splits sum.splits)

text \<open>
  C9. When \<open>getDCAAccounts\<close> emits a result, its summary has exactly the keys
  \<open>LOGOS\<close> and \<open>CHAOS\<close>, and the result is what the fetched accounts give once
  those whose input and output mints are both neither tracked mint are removed:
  such an account adds to no position, count or volume.
\<close>

theorem untracked_accounts_ignored:
  assumes "getDCAAccounts w = Inr r"
  shows "dom (result_summary r) = {''LOGOS'', ''CHAOS''}
       \<and> processAccounts w (filter tracked (projr (fst (withRetry_default (fetchAccounts w)))))
           = Inr r"
  using getDCAAccounts_processed[OF assms]
    processAccounts_summary_keys[of w "projr (fst (withRetry_default (fetchAccounts w)))" r]
  by (simp add: processAccounts_tracked)

lemma sample_categories:
  "accountsByToken [untracked_account, partial_account] =
   \<lparr> LOGOS = \<lparr> buys = [partial_account], sells = [] \<rparr>, CHAOS = \<lparr> buys = [], sells = [] \<rparr> \<rparr>"
  by (simp add: accountsByToken_def untracked_account_def partial_account_def
      LOGOS_MINT_def CHAOS_MINT_def)

lemma processAccounts_succeeds:
  assumes "list_all fits53 (summaryNumbers (accountsByToken xs))"
    and "conversions w (accountsByToken xs) = Inr ps"
  shows "\<not> isl (processAccounts w xs)"
  using assms by (simp add: processAccounts_def calculateSummaryFromRawAccounts_def)

lemma partial_conversions:
  assumes "logosPrice w = Num (1 / 2)" and "txLookup w ''partial'' = lookup_ok"
  shows "\<exists>p. conversions w
          \<lparr> LOGOS = \<lparr> buys = [partial_account], sells = [] \<rparr>,
            CHAOS = \<lparr> buys = [], sells = [] \<rparr> \<rparr> = Inr [p]"
proof -
  obtain p where
    "convertDCAAccount partial_account (Num (1 / 2)) ''LOGOS'' BUY lookup_ok = Inr p"
    by (simp add: convertDCAAccount_def partial_account_def lookup_ok_def numbersBeforeMod_def
        numbersAfterMod_def fits53_def calc_usedInCurrentCycle_def signed_modulo_int_def)
  moreover have "isOrderActive partial_account"
    by (simp add: isOrderActive_def partial_account_def)
  moreover have "publicKey partial_account = ''partial''"
    by (simp add: partial_account_def)
  ultimately have "conversions w
          \<lparr> LOGOS = \<lparr> buys = [partial_account], sells = [] \<rparr>,
            CHAOS = \<lparr> buys = [], sells = [] \<rparr> \<rparr> = Inr [p]"
    using assms by (simp add: conversions_def convertGroup_def)
  then show ?thesis by blast
qed

lemma partial_numbers_fit:
  "list_all fits53 (summaryNumbers \<lparr> LOGOS = \<lparr> buys = [partial_account], sells = [] \<rparr>,
                                     CHAOS = \<lparr> buys = [], sells = [] \<rparr> \<rparr>)"
  by (simp add: summaryNumbers_def tokenNumbers_def buyNumbers_def
      isOrderActive_def partial_account_def fits53_def)

lemma mixed_fetch:
  "fst (withRetry_default (fetchAccounts mixed_provider)) = Inr [untracked_account, partial_account]"
proof -
  have "fetchAccounts mixed_provider 0 = Inr [untracked_account, partial_account]"
    by (simp add: fetchAccounts_def mixed_provider_def)
  then have "withRetry_loop (fetchAccounts mixed_provider) 3 0 ThrownUndefined
          = (Inr [untracked_account, partial_account], Suc 0)"
    by (subst withRetry_loop.simps) simp
  then show ?thesis
    by (simp add: withRetry_default_def withRetry_def)
qed

lemma mixed_poll:
  "getDCAAccounts mixed_provider = Inr (projr (getDCAAccounts mixed_provider))"
proof -
  have "logosPrice mixed_provider = Num (1 / 2)"
    and "txLookup mixed_provider ''partial'' = lookup_ok"
    by (simp_all add: mixed_provider_def sample_provider_def)
  then have "\<not> isl (processAccounts mixed_provider [untracked_account, partial_account])"
    using partial_conversions[of mixed_provider] partial_numbers_fit
      processAccounts_succeeds[of "[untracked_account, partial_account]" mixed_provider]
    by (auto simp only: sample_categories)
  moreover have "dcaInitialized mixed_provider"
    by (simp add: mixed_provider_def sample_provider_def)
  ultimately have "\<not> isl (getDCAAccounts mixed_provider)"
    using mixed_fetch by (simp add: getDCAAccounts_def)
  then show ?thesis by simp
qed

theorem untracked_accounts_ignored_witness:
  "\<not> isl (getDCAAccounts mixed_provider)
   \<and> fst (withRetry_default (fetchAccounts mixed_provider)) = Inr [untracked_account, partial_account]
   \<and> filter tracked [untracked_account, partial_account] = [partial_account]
   \<and> dom (result_summary (projr (getDCAAccounts mixed_provider))) = {''LOGOS'', ''CHAOS''}
   \<and> processAccounts mixed_provider [partial_account] = getDCAAccounts mixed_provider"
proof -
  have t: "filter tracked [untracked_account, partial_account] = [partial_account]"
    by (simp add: tracked_def untracked_account_def partial_account_def
        LOGOS_MINT_def CHAOS_MINT_def)
  have "\<not> isl (getDCAAccounts mixed_provider)"
    using mixed_poll by (metis sum.disc(2))
  then show ?thesis
    using t mixed_fetch untracked_accounts_ignored[OF mixed_poll] by simp
qed

subsection \<open>The chart series\<close>

lemma processAccounts_chartData:
  assumes "processAccounts w xs = Inr d"
  shows "result_chartData d =
           [''LOGOS'' \<mapsto> [chartPoint (now_LOGOS w) (the (result_summary d ''LOGOS''))],
            ''CHAOS'' \<mapsto> [chartPoint (now_CHAOS w) (the (result_summary d ''CHAOS''))]]"
  using assms by (auto simp: processAccounts_def split: sum.splits)

lemma getDCAAccounts_chartData:
  assumes "getDCAAccounts w = Inr d"
  shows "result_chartData d =
           [''LOGOS'' \<mapsto> [chartPoint (now_LOGOS w) (the (result_summary d ''LOGOS''))],
            ''CHAOS'' \<mapsto> [chartPoint (now_CHAOS w) (the (result_summary d ''CHAOS''))]]"
  using assms processAccounts_chartData
  by (auto simp: getDCAAccounts_def split: if_splits sum.splits)

lemma polls_snoc: "polls st (ws @ [w]) = fetchData (polls st ws) (getDCAAccounts w)"
  by (simp add: polls_def)

lemma fetchData_success:
  assumes "\<not> isl outcome"
  shows "chartData (fetchData st outcome) = result_chartData (projr outcome)"
  using assms by (cases outcome) (simp_all add: fetchData_def)

text \<open>
  C8, as the code has it. Each successful poll publishes a chart series of exactly
  one point for each token, which replaces the series published before: after any
  number \<open>n \<ge> 1\<close> of successful polls the series of each token is that of the last
  poll and contains one point.
\<close>

theorem chart_series_replaced:
  assumes "ws \<noteq> []" and "\<forall>w \<in> set ws. \<not> isl (getDCAAccounts w)"
  shows "chartData (polls st ws) = result_chartData (projr (getDCAAccounts (last ws)))
       \<and> map_option length (chartData (polls st ws) ''LOGOS'') = Some 1
       \<and> map_option length (chartData (polls st ws) ''CHAOS'') = Some 1"
proof -
  obtain vs w where ws: "ws = vs @ [w]"
    using assms(1) by (metis rev_exhaust)
  have ok: "\<not> isl (getDCAAccounts w)"
    using assms(2) ws by simp
  then obtain d where d: "getDCAAccounts w = Inr d"
    by (cases "getDCAAccounts w") simp_all
  have "chartData (polls st ws) = result_chartData d"
    using ws ok d by (simp add: polls_snoc fetchData_success)
  then show ?thesis
    using ws d getDCAAccounts_chartData[OF d] by simp
qed

lemma sample_poll:
  "getDCAAccounts sample_provider = Inr (projr (getDCAAccounts sample_provider))"
proof -
  have f: "fetchAccounts sample_provider 0 = Inr [partial_account]"
    by (simp add: fetchAccounts_def sample_provider_def)
  have "withRetry_loop (fetchAccounts sample_provider) 3 0 ThrownUndefined
          = (Inr [partial_account], Suc 0)"
    using f by (subst withRetry_loop.simps) simp
  then have r: "fst (withRetry_default (fetchAccounts sample_provider)) = Inr [partial_account]"
    by (simp add: withRetry_default_def withRetry_def)
  have c: "accountsByToken [partial_account] =
      \<lparr> LOGOS = \<lparr> buys = [partial_account], sells = [] \<rparr>, CHAOS = \<lparr> buys = [], sells = [] \<rparr> \<rparr>"
    by (simp add: accountsByToken_def partial_account_def LOGOS_MINT_def CHAOS_MINT_def)
  have "logosPrice sample_provider = Num (1 / 2)"
    and "txLookup sample_provider ''partial'' = lookup_ok"
    by (simp_all add: sample_provider_def)
  then have "\<not> isl (processAccounts sample_provider [partial_account])"
    using partial_conversions[of sample_provider] partial_numbers_fit
      processAccounts_succeeds[of "[partial_account]" sample_provider]
    by (auto simp only: c)
  moreover have "dcaInitialized sample_provider"
    by (simp add: sample_provider_def)
  ultimately have "\<not> isl (getDCAAccounts sample_provider)"
    using r by (simp add: getDCAAccounts_def)
  then show ?thesis by simp
qed

theorem chart_series_replaced_witness:
  "[sample_provider, sample_provider] \<noteq> []
   \<and> \<not> isl (getDCAAccounts sample_provider)
   \<and> chartData (polls initialDashboard [sample_provider, sample_provider])
       = result_chartData (projr (getDCAAccounts sample_provider))
   \<and> map_option length (chartData (polls initialDashboard [sample_provider, sample_provider])
                                   ''LOGOS'') = Some 1
   \<and> map_option length (chartData (polls initialDashboard [sample_provider, sample_provider])
                                   ''CHAOS'') = Some 1"
proof -
  have ok: "\<not> isl (getDCAAccounts sample_provider)"
    using sample_poll by (metis sum.disc(2))
  then have all: "\<forall>w \<in> set [sample_provider, sample_provider]. \<not> isl (getDCAAccounts w)"
    by simp
  have ne: "[sample_provider, sample_provider] \<noteq> []"
    by simp
  have l: "last [sample_provider, sample_provider] = sample_provider"
    by simp
  show ?thesis
    using ok ne chart_series_replaced[OF ne all, of initialDashboard] unfolding l by blast
qed

text \<open>
  C8, as stated, fails: after two successful polls the LOGOS series contains one
  point, not two.
\<close>

theorem two_polls_one_point:
  "\<not> isl (getDCAAccounts sample_provider)
   \<and> map_option length (chartData (polls initialDashboard [sample_provider, sample_provider])
                                   ''LOGOS'') \<noteq> Some 2"
proof -
  have ok: "\<not> isl (getDCAAccounts sample_provider)"
    using sample_poll by (metis sum.disc(2))
  have "polls initialDashboard [sample_provider, sample_provider] =
      fetchData (fetchData initialDashboard (getDCAAccounts sample_provider))
                (getDCAAccounts sample_provider)"
    by (simp add: polls_def)
  then have "chartData (polls initialDashboard [sample_provider, sample_provider])
      = result_chartData (projr (getDCAAccounts sample_provider))"
    using ok by (simp add: fetchData_success)
  then show ?thesis
    using ok getDCAAccounts_chartData[OF sample_poll] by simp
qed

end
